theory Spec2Isabelle
  imports Complex_Main
begin

section \<open>Python values handled by the yfinance bridge\<close>

text \<open>
  The bridge \<^verbatim>\<open>src/scripts/yfinance/yfinance_bridge.py\<close> is duck-typed Python over pandas
  tables. The embedding fixes a universe of values and writes out every observation the
  source makes on a value: \<^verbatim>\<open>is None\<close>, truthiness, \<^verbatim>\<open>isinstance\<close>, \<^verbatim>\<open>hasattr\<close>,
  \<^verbatim>\<open>pd.isna\<close>, \<^verbatim>\<open>float(...)\<close> and \<^verbatim>\<open>str(...)\<close>.
\<close>

text \<open>A Python float: not-a-number, an infinity (True is positive) or a finite value.\<close>

datatype pyfloat = FNaN | FInf bool | FFin rat

text \<open>\<^verbatim>\<open>datetime.date\<close> and \<^verbatim>\<open>datetime.datetime\<close> (offset from UTC in minutes when aware).\<close>

record pydate =
  d_year :: nat
  d_month :: nat
  d_day :: nat

record pydatetime =
  dt_date :: pydate
  dt_hour :: nat
  dt_minute :: nat
  dt_second :: nat
  dt_microsecond :: nat
  dt_utcoffset :: "int option"

text \<open>
  Scalars: what a table cell, a table label or a dictionary key can be.
  \<open>STimestamp\<close> is a pandas Timestamp (it has \<^verbatim>\<open>to_pydatetime\<close>, \<^verbatim>\<open>isoformat\<close> and
  \<^verbatim>\<open>date\<close>), \<open>SDatetime\<close> a Python datetime (\<^verbatim>\<open>isoformat\<close> and \<^verbatim>\<open>date\<close>), \<open>SDate\<close> a
  Python date (\<^verbatim>\<open>isoformat\<close> only). \<open>SObj s\<close> is any other object: it is truthy, has none
  of these attributes, is no number, and \<^verbatim>\<open>str\<close> of it is \<open>s\<close>.
\<close>

datatype scalar =
    SNone
  | SBool bool
  | SInt int
  | SFloat pyfloat
  | SStr string
  | STimestamp pydatetime
  | SDatetime pydatetime
  | SDate pydate
  | SObj string

datatype pyval = Atom scalar | PList "pyval list" | PDict "(scalar \<times> pyval) list"

type_synonym pydict = "(scalar \<times> pyval) list"

text \<open>Exceptions (instances of \<^verbatim>\<open>Exception\<close>): the class and the message \<^verbatim>\<open>str(exc)\<close>.\<close>

datatype exn_class =
  ValueError | TypeError | OverflowError | AttributeError | JSONDecodeError | ProviderError

datatype pyexc = Exc exn_class string

fun exc_str :: "pyexc \<Rightarrow> string" where
  "exc_str (Exc _ msg) = msg"

text \<open>
  Library functions whose text-level behaviour is not modelled are parameters of the
  embedding: \<^verbatim>\<open>float(s)\<close> on a string, \<^verbatim>\<open>repr\<close> of a float and \<^verbatim>\<open>json.loads\<close>.
\<close>

record runtime =
  float_of_str :: "string \<Rightarrow> pyexc + pyfloat"
  float_repr :: "pyfloat \<Rightarrow> string"
  json_loads :: "string \<Rightarrow> pyexc + pyval"

subsection \<open>Text forms\<close>

definition digit_char :: "nat \<Rightarrow> char" where
  "digit_char d = char_of (48 + d)"

fun nat_digits :: "nat \<Rightarrow> string" where
  "nat_digits n = (if n < 10 then [digit_char n] else nat_digits (n div 10) @ [digit_char (n mod 10)])"

declare nat_digits.simps [simp del]

definition int_str :: "int \<Rightarrow> string" where
  "int_str i = (if i < 0 then CHR ''-'' # nat_digits (nat (- i)) else nat_digits (nat i))"

text \<open>\<^verbatim>\<open>"%0wd"\<close>: decimal digits padded with zeros on the left to width \<open>w\<close>.\<close>

definition zpad :: "nat \<Rightarrow> nat \<Rightarrow> string" where
  "zpad w n = replicate (w - length (nat_digits n)) CHR ''0'' @ nat_digits n"

definition date_isoformat :: "pydate \<Rightarrow> string" where
  "date_isoformat d = zpad 4 (d_year d) @ ''-'' @ zpad 2 (d_month d) @ ''-'' @ zpad 2 (d_day d)"

definition offset_str :: "int option \<Rightarrow> string" where
  "offset_str off = (case off of
       None \<Rightarrow> []
     | Some m \<Rightarrow> (if m < 0 then ''-'' else ''+'')
          @ zpad 2 (nat \<bar>m\<bar> div 60) @ '':'' @ zpad 2 (nat \<bar>m\<bar> mod 60))"

text \<open>\<^verbatim>\<open>datetime.isoformat(sep)\<close>; \<^verbatim>\<open>str(datetime)\<close> is \<^verbatim>\<open>isoformat(' ')\<close>.\<close>

definition datetime_format :: "char \<Rightarrow> pydatetime \<Rightarrow> string" where
  "datetime_format sep t =
     date_isoformat (dt_date t) @ [sep]
     @ zpad 2 (dt_hour t) @ '':'' @ zpad 2 (dt_minute t) @ '':'' @ zpad 2 (dt_second t)
     @ (if dt_microsecond t = 0 then [] else ''.'' @ zpad 6 (dt_microsecond t))
     @ offset_str (dt_utcoffset t)"

definition datetime_isoformat :: "pydatetime \<Rightarrow> string" where
  "datetime_isoformat t = datetime_format CHR ''T'' t"

fun py_str :: "runtime \<Rightarrow> scalar \<Rightarrow> string" where
  "py_str rt SNone = ''None''"
| "py_str rt (SBool b) = (if b then ''True'' else ''False'')"
| "py_str rt (SInt i) = int_str i"
| "py_str rt (SFloat f) = float_repr rt f"
| "py_str rt (SStr s) = s"
| "py_str rt (STimestamp t) = datetime_format CHR '' '' t"
| "py_str rt (SDatetime t) = datetime_format CHR '' '' t"
| "py_str rt (SDate d) = date_isoformat d"
| "py_str rt (SObj s) = s"

subsection \<open>Observations on values\<close>

fun pd_isna :: "scalar \<Rightarrow> bool" where
  "pd_isna SNone = True"
| "pd_isna (SFloat FNaN) = True"
| "pd_isna _ = False"

text \<open>\<^verbatim>\<open>isinstance(v, float)\<close>, and \<^verbatim>\<open>isinstance(v, int)\<close> (a bool is an int).\<close>

fun is_float :: "scalar \<Rightarrow> bool" where
  "is_float (SFloat _) = True"
| "is_float _ = False"

fun is_int :: "scalar \<Rightarrow> bool" where
  "is_int (SInt _) = True"
| "is_int (SBool _) = True"
| "is_int _ = False"

fun has_date :: "scalar \<Rightarrow> bool" where
  "has_date (STimestamp _) = True"
| "has_date (SDatetime _) = True"
| "has_date _ = False"

fun has_to_pydatetime :: "scalar \<Rightarrow> bool" where
  "has_to_pydatetime (STimestamp _) = True"
| "has_to_pydatetime _ = False"

fun has_isoformat :: "scalar \<Rightarrow> bool" where
  "has_isoformat (STimestamp _) = True"
| "has_isoformat (SDatetime _) = True"
| "has_isoformat (SDate _) = True"
| "has_isoformat _ = False"

fun truthy :: "scalar \<Rightarrow> bool" where
  "truthy SNone = False"
| "truthy (SBool b) = b"
| "truthy (SInt i) = (i \<noteq> 0)"
| "truthy (SFloat f) = (f \<noteq> FFin 0)"
| "truthy (SStr s) = (s \<noteq> [])"
| "truthy _ = True"

subsection \<open>Conversion to float\<close>

fun bit_length :: "nat \<Rightarrow> nat" where
  "bit_length n = (if n = 0 then 0 else Suc (bit_length (n div 2)))"

declare bit_length.simps [simp del]

text \<open>
  \<^verbatim>\<open>float(i)\<close> for an integer: exact up to 53 bits, otherwise rounded to the nearest
  value with a 53-bit significand (ties to even); OverflowError beyond the double range.
\<close>

definition float_overflow_bound :: nat where
  "float_overflow_bound = 2 ^ 1024"

text \<open>Rounding \<open>a\<close> to a multiple of \<open>2 ^ sh\<close>, to the nearest, ties to the even multiple.\<close>

definition round_half_even :: "nat \<Rightarrow> nat \<Rightarrow> nat" where
  "round_half_even a sh =
     (let q = a div 2 ^ sh; r = a mod 2 ^ sh; half = 2 ^ (sh - 1);
          q' = (if half < r \<or> (r = half \<and> odd q) then q + 1 else q)
      in q' * 2 ^ sh)"

definition int_to_float :: "int \<Rightarrow> pyexc + pyfloat" where
  "int_to_float i =
     (let a = nat \<bar>i\<bar>; n = bit_length a in
      if n \<le> 53 then Inr (FFin (of_int i))
      else
        let m = round_half_even a (n - 53)
        in if float_overflow_bound \<le> m then Inl (Exc OverflowError ''int too large to convert to float'')
           else Inr (FFin (of_int (sgn i * int m))))"

definition float_type_error :: "string \<Rightarrow> pyexc" where
  "float_type_error tn =
     Exc TypeError (''float() argument must be a string or a real number, not '' @ [CHR 0x27] @ tn @ [CHR 0x27])"

fun py_float :: "runtime \<Rightarrow> scalar \<Rightarrow> pyexc + pyfloat" where
  "py_float rt (SFloat f) = Inr f"
| "py_float rt (SInt i) = int_to_float i"
| "py_float rt (SBool b) = Inr (FFin (if b then 1 else 0))"
| "py_float rt (SStr s) = float_of_str rt s"
| "py_float rt SNone = Inl (float_type_error ''NoneType'')"
| "py_float rt (STimestamp _) = Inl (float_type_error ''Timestamp'')"
| "py_float rt (SDatetime _) = Inl (float_type_error ''datetime.datetime'')"
| "py_float rt (SDate _) = Inl (float_type_error ''datetime.date'')"
| "py_float rt (SObj _) = Inl (float_type_error ''object'')"

subsection \<open>Dictionaries and tables\<close>

text \<open>
  A Python dict keeps insertion order; assigning to a key that is present replaces the
  value where it stands.
\<close>

fun dict_set :: "pydict \<Rightarrow> scalar \<Rightarrow> pyval \<Rightarrow> pydict" where
  "dict_set [] k v = [(k, v)]"
| "dict_set ((k', v') # rest) k v =
     (if k' = k then (k, v) # rest else (k', v') # dict_set rest k v)"

text \<open>\<^verbatim>\<open>d.get(k)\<close>: the value, or None.\<close>

definition dict_get :: "pydict \<Rightarrow> scalar \<Rightarrow> pyval" where
  "dict_get d k = (case map_of d k of None \<Rightarrow> Atom SNone | Some v \<Rightarrow> v)"

text \<open>
  A pandas DataFrame as its iteration shows it: the name of the index, the row labels,
  the column labels, and the cells row by row (the cell values are the Python scalars
  that iterating a row yields).
\<close>

record dataframe =
  df_index_name :: scalar
  df_index :: "scalar list"
  df_columns :: "scalar list"
  df_rows :: "scalar list list"

definition df_wf :: "dataframe \<Rightarrow> bool" where
  "df_wf df \<longleftrightarrow> length (df_rows df) = length (df_index df)
     \<and> list_all (\<lambda>r. length r = length (df_columns df)) (df_rows df)"

definition df_empty :: "dataframe \<Rightarrow> bool" where
  "df_empty df \<longleftrightarrow> df_index df = [] \<or> df_columns df = []"

section \<open>The statement normalizer\<close>

text \<open>\<^verbatim>\<open>col.date()\<close> of a column label that has the attribute.\<close>

fun call_date :: "scalar \<Rightarrow> pyexc + pydate" where
  "call_date (STimestamp t) = Inr (dt_date t)"
| "call_date (SDatetime t) = Inr (dt_date t)"
| "call_date _ = Inl (Exc AttributeError ''date'')"

text \<open>The re-keying of one column label (lines 32 to 39).\<close>

definition rekey_column :: "runtime \<Rightarrow> scalar \<Rightarrow> scalar" where
  "rekey_column rt col =
     (if has_date col then
        (case call_date col of
           Inr d \<Rightarrow> SStr (date_isoformat d)
         | Inl _ \<Rightarrow> SStr (py_str rt col))
      else SStr (py_str rt col))"

text \<open>
  \<^verbatim>\<open>df.transpose().iterrows()\<close>: one pair per column, of the column's label and the
  column's cells paired with the row labels (\<open>column_cells\<close>).
\<close>

definition column_cells :: "dataframe \<Rightarrow> nat \<Rightarrow> (scalar \<times> scalar) list" where
  "column_cells df j = zip (df_index df) (map (\<lambda>r. r ! j) (df_rows df))"

definition transposed_rows :: "dataframe \<Rightarrow> (scalar \<times> (scalar \<times> scalar) list) list" where
  "transposed_rows df =
     map (\<lambda>j. (df_columns df ! j, column_cells df j)) [0 ..< length (df_columns df)]"

text \<open>Lines 48 to 51: a number becomes a float, anything else is kept.\<close>

definition coerce_cell :: "runtime \<Rightarrow> scalar \<Rightarrow> pyexc + scalar" where
  "coerce_cell rt val =
     (if is_float val \<or> is_int val then
        (case py_float rt val of Inl e \<Rightarrow> Inl e | Inr f \<Rightarrow> Inr (SFloat f))
      else Inr val)"

text \<open>The inner loop over \<^verbatim>\<open>row.items()\<close> (lines 45 to 51).\<close>

fun add_items :: "runtime \<Rightarrow> (scalar \<times> scalar) list \<Rightarrow> pydict \<Rightarrow> pyexc + pydict" where
  "add_items rt [] rec = Inr rec"
| "add_items rt ((key, val) # rest) rec =
     (if pd_isna val then add_items rt rest rec
      else (case coerce_cell rt val of
              Inl e \<Rightarrow> Inl e
            | Inr v \<Rightarrow> add_items rt rest (dict_set rec (SStr (py_str rt key)) (Atom v))))"

text \<open>The outer loop over the period rows (lines 43 to 52).\<close>

fun records_loop :: "runtime \<Rightarrow> (scalar \<times> (scalar \<times> scalar) list) list \<Rightarrow> pyexc + pydict list" where
  "records_loop rt [] = Inr []"
| "records_loop rt ((idx, row) # rest) =
     (case add_items rt row [(SStr ''report_period'', Atom (SStr (py_str rt idx)))] of
        Inl e \<Rightarrow> Inl e
      | Inr rec \<Rightarrow>
          (case records_loop rt rest of
             Inl e \<Rightarrow> Inl e
           | Inr recs \<Rightarrow> Inr (rec # recs)))"

definition df_to_records :: "runtime \<Rightarrow> dataframe option \<Rightarrow> pyexc + pydict list" where
  "df_to_records rt dfo =
     (case dfo of
        None \<Rightarrow> Inr []
      | Some df \<Rightarrow>
          if df_empty df then Inr []
          else records_loop rt
                 (transposed_rows (df\<lparr>df_columns := map (rekey_column rt) (df_columns df)\<rparr>)))"

section \<open>The history normalizer\<close>

text \<open>
  \<^verbatim>\<open>df.reset_index()\<close>: the index becomes the first column, named after the index
  (\<^verbatim>\<open>index\<close>, or \<^verbatim>\<open>level_0\<close> when that is taken, if the index has no name); a name that
  is a column already raises ValueError. The new index counts the rows.
\<close>

definition reset_index :: "runtime \<Rightarrow> dataframe \<Rightarrow> pyexc + dataframe" where
  "reset_index rt df =
     (let name = (if df_index_name df = SNone
                  then (if SStr ''index'' \<in> set (df_columns df) then SStr ''level_0'' else SStr ''index'')
                  else df_index_name df)
      in if name \<in> set (df_columns df)
         then Inl (Exc ValueError (''cannot insert '' @ py_str rt name @ '', already exists''))
         else Inr \<lparr>df_index_name = SNone,
                   df_index = map (\<lambda>i. SInt (int i)) [0 ..< length (df_index df)],
                   df_columns = name # df_columns df,
                   df_rows = map (\<lambda>(l, r). l # r) (zip (df_index df) (df_rows df))\<rparr>)"

text \<open>\<^verbatim>\<open>df.iterrows()\<close>: each row as the pairs of column label and cell.\<close>

definition iterrows :: "dataframe \<Rightarrow> (scalar \<times> scalar) list list" where
  "iterrows df = map (\<lambda>r. zip (df_columns df) r) (df_rows df)"

text \<open>\<^verbatim>\<open>row.get(key)\<close> on a row whose labels are distinct: the cell, or None.\<close>

definition series_get :: "(scalar \<times> scalar) list \<Rightarrow> scalar \<Rightarrow> scalar" where
  "series_get row key = (case map_of row key of None \<Rightarrow> SNone | Some v \<Rightarrow> v)"

text \<open>Lines 62 to 66: the date value of a row.\<close>

fun to_iso :: "scalar \<Rightarrow> string" where
  "to_iso (STimestamp t) = datetime_isoformat t"
| "to_iso (SDatetime t) = datetime_isoformat t"
| "to_iso (SDate d) = date_isoformat d"
| "to_iso _ = []"

definition date_value :: "(scalar \<times> scalar) list \<Rightarrow> scalar" where
  "date_value row =
     (let dv = (if truthy (series_get row (SStr ''Date''))
                then series_get row (SStr ''Date'')
                else series_get row (SStr ''Datetime''))
      in if has_to_pydatetime dv then SStr (to_iso dv)
         else if has_isoformat dv then SStr (to_iso dv)
         else dv)"

text \<open>\<^verbatim>\<open>float(row.get(k)) if row.get(k) is not None else None\<close>.\<close>

definition float_field :: "runtime \<Rightarrow> (scalar \<times> scalar) list \<Rightarrow> string \<Rightarrow> pyexc + scalar" where
  "float_field rt row k =
     (if series_get row (SStr k) \<noteq> SNone
      then (case py_float rt (series_get row (SStr k)) of
              Inl e \<Rightarrow> Inl e
            | Inr f \<Rightarrow> Inr (SFloat f))
      else Inr SNone)"

definition history_record :: "runtime \<Rightarrow> (scalar \<times> scalar) list \<Rightarrow> pyexc + pydict" where
  "history_record rt row =
     (let d = date_value row in
      case float_field rt row ''Open'' of Inl e \<Rightarrow> Inl e | Inr op \<Rightarrow>
      case float_field rt row ''High'' of Inl e \<Rightarrow> Inl e | Inr hi \<Rightarrow>
      case float_field rt row ''Low'' of Inl e \<Rightarrow> Inl e | Inr lo \<Rightarrow>
      case float_field rt row ''Close'' of Inl e \<Rightarrow> Inl e | Inr cl \<Rightarrow>
      case float_field rt row ''Volume'' of Inl e \<Rightarrow> Inl e | Inr vo \<Rightarrow>
        Inr [(SStr ''date'', Atom d), (SStr ''open'', Atom op), (SStr ''high'', Atom hi),
             (SStr ''low'', Atom lo), (SStr ''close'', Atom cl), (SStr ''volume'', Atom vo)])"

fun history_loop :: "runtime \<Rightarrow> (scalar \<times> scalar) list list \<Rightarrow> pyexc + pydict list" where
  "history_loop rt [] = Inr []"
| "history_loop rt (row # rest) =
     (case history_record rt row of
        Inl e \<Rightarrow> Inl e
      | Inr rec \<Rightarrow>
          (case history_loop rt rest of
             Inl e \<Rightarrow> Inl e
           | Inr recs \<Rightarrow> Inr (rec # recs)))"

definition normalize_history :: "runtime \<Rightarrow> dataframe option \<Rightarrow> pyexc + pydict list" where
  "normalize_history rt dfo =
     (case dfo of
        None \<Rightarrow> Inr []
      | Some df \<Rightarrow>
          if df_empty df then Inr []
          else (case reset_index rt df of
                  Inl e \<Rightarrow> Inl e
                | Inr df' \<Rightarrow> history_loop rt (iterrows df')))"

section \<open>The response envelope\<close>

text \<open>
  What \<^verbatim>\<open>json.dumps(payload, default=_json_default)\<close> writes, as a document tree: the
  text rendering of numbers and strings is not modelled, the structure is.
\<close>

datatype json =
    JNull
  | JBool bool
  | JInt int
  | JFloat pyfloat
  | JStr string
  | JArr "json list"
  | JObj "(string \<times> json) list"

text \<open>Lines 11 to 14. A pandas Timestamp is an instance of \<^verbatim>\<open>datetime\<close>; a date is not.\<close>

fun json_default :: "runtime \<Rightarrow> scalar \<Rightarrow> string" where
  "json_default rt (STimestamp t) = datetime_isoformat t"
| "json_default rt (SDatetime t) = datetime_isoformat t"
| "json_default rt v = py_str rt v"

fun dumps_scalar :: "runtime \<Rightarrow> scalar \<Rightarrow> json" where
  "dumps_scalar rt SNone = JNull"
| "dumps_scalar rt (SBool b) = JBool b"
| "dumps_scalar rt (SInt i) = JInt i"
| "dumps_scalar rt (SFloat f) = JFloat f"
| "dumps_scalar rt (SStr s) = JStr s"
| "dumps_scalar rt v = JStr (json_default rt v)"

text \<open>
  A dictionary key is written as a string; the encoder accepts str, int, float, bool and
  None and raises TypeError on any other key (\<^verbatim>\<open>default\<close> is not applied to keys).
\<close>

fun dumps_key :: "runtime \<Rightarrow> scalar \<Rightarrow> pyexc + string" where
  "dumps_key rt (SStr s) = Inr s"
| "dumps_key rt (SFloat FNaN) = Inr ''NaN''"
| "dumps_key rt (SFloat (FInf pos)) = Inr (if pos then ''Infinity'' else ''-Infinity'')"
| "dumps_key rt (SFloat (FFin r)) = Inr (float_repr rt (FFin r))"
| "dumps_key rt (SBool b) = Inr (if b then ''true'' else ''false'')"
| "dumps_key rt SNone = Inr ''null''"
| "dumps_key rt (SInt i) = Inr (int_str i)"
| "dumps_key rt (STimestamp _) = Inl (Exc TypeError ''keys must be str, int, float, bool or None, not Timestamp'')"
| "dumps_key rt (SDatetime _) = Inl (Exc TypeError ''keys must be str, int, float, bool or None, not datetime'')"
| "dumps_key rt (SDate _) = Inl (Exc TypeError ''keys must be str, int, float, bool or None, not date'')"
| "dumps_key rt (SObj _) = Inl (Exc TypeError ''keys must be str, int, float, bool or None, not object'')"

fun json_dumps :: "runtime \<Rightarrow> pyval \<Rightarrow> pyexc + json"
  and dumps_list :: "runtime \<Rightarrow> pyval list \<Rightarrow> pyexc + json list"
  and dumps_items :: "runtime \<Rightarrow> (scalar \<times> pyval) list \<Rightarrow> pyexc + (string \<times> json) list"
where
  "json_dumps rt (Atom a) = Inr (dumps_scalar rt a)"
| "json_dumps rt (PList xs) =
     (case dumps_list rt xs of Inl e \<Rightarrow> Inl e | Inr js \<Rightarrow> Inr (JArr js))"
| "json_dumps rt (PDict kvs) =
     (case dumps_items rt kvs of Inl e \<Rightarrow> Inl e | Inr ms \<Rightarrow> Inr (JObj ms))"
| "dumps_list rt [] = Inr []"
| "dumps_list rt (x # xs) =
     (case json_dumps rt x of
        Inl e \<Rightarrow> Inl e
      | Inr j \<Rightarrow> (case dumps_list rt xs of Inl e \<Rightarrow> Inl e | Inr js \<Rightarrow> Inr (j # js)))"
| "dumps_items rt [] = Inr []"
| "dumps_items rt ((k, v) # kvs) =
     (case dumps_key rt k of
        Inl e \<Rightarrow> Inl e
      | Inr s \<Rightarrow>
          (case json_dumps rt v of
             Inl e \<Rightarrow> Inl e
           | Inr j \<Rightarrow> (case dumps_items rt kvs of Inl e \<Rightarrow> Inl e | Inr ms \<Rightarrow> Inr ((s, j) # ms))))"

text \<open>
  Lines 17 to 24. Standard output is the list of documents written so far; \<open>respond\<close>
  appends one, or raises before writing when \<^verbatim>\<open>json.dumps\<close> raises.
\<close>

definition respond :: "runtime \<Rightarrow> bool \<Rightarrow> pyval \<Rightarrow> scalar \<Rightarrow> json list \<Rightarrow> pyexc + json list" where
  "respond rt ok data error out =
     (let payload = [(SStr ''ok'', Atom (SBool ok))];
          payload = (if ok
                     then dict_set (dict_set payload (SStr ''data'') data)
                            (SStr ''source'') (Atom (SStr ''yfinance/yahoo''))
                     else dict_set payload (SStr ''error'')
                            (Atom (if truthy error then error else SStr ''unknown error'')))
      in case json_dumps rt (PDict payload) of
           Inl e \<Rightarrow> Inl e
         | Inr doc \<Rightarrow> Inr (out @ [doc]))"

section \<open>The provider and the action handlers\<close>

text \<open>
  The provider is outside the program: an HTTP search endpoint and ticker objects whose
  attributes fetch on access. Each is a parameter; every interaction can raise.
\<close>

record http_response =
  raise_for_status :: "pyexc option"
  resp_json :: "pyexc + pyval"

record ticker =
  t_history :: "pyval \<Rightarrow> pyval \<Rightarrow> pyval \<Rightarrow> pyexc + dataframe option"
  t_news :: "pyexc + pyval"
  t_info :: "pyexc + pyval"
  t_financials :: "pyexc + dataframe option"
  t_quarterly_financials :: "pyexc + dataframe option"
  t_balance_sheet :: "pyexc + dataframe option"
  t_quarterly_balance_sheet :: "pyexc + dataframe option"
  t_cashflow :: "pyexc + dataframe option"
  t_quarterly_cashflow :: "pyexc + dataframe option"

record provider =
  requests_get :: "pyval \<Rightarrow> pyexc + http_response"
  yf_Ticker :: "pyval \<Rightarrow> pyexc + ticker"

text \<open>The provider calls a run makes, in order.\<close>

datatype call = RequestsGet pyval | TickerNew pyval

fun type_name :: "pyval \<Rightarrow> string" where
  "type_name (Atom SNone) = ''NoneType''"
| "type_name (Atom (SBool _)) = ''bool''"
| "type_name (Atom (SInt _)) = ''int''"
| "type_name (Atom (SFloat _)) = ''float''"
| "type_name (Atom (SStr _)) = ''str''"
| "type_name (Atom (STimestamp _)) = ''Timestamp''"
| "type_name (Atom (SDatetime _)) = ''datetime.datetime''"
| "type_name (Atom (SDate _)) = ''datetime.date''"
| "type_name (Atom (SObj _)) = ''object''"
| "type_name (PList _) = ''list''"
| "type_name (PDict _) = ''dict''"

definition no_attribute :: "pyval \<Rightarrow> string \<Rightarrow> pyexc" where
  "no_attribute v a =
     Exc AttributeError ([CHR 0x27] @ type_name v @ [CHR 0x27] @ '' object has no attribute ''
                         @ [CHR 0x27] @ a @ [CHR 0x27])"

text \<open>\<^verbatim>\<open>v.get(k)\<close> on any value: only a dict has the method.\<close>

fun py_get :: "pyval \<Rightarrow> string \<Rightarrow> pyexc + pyval" where
  "py_get (PDict d) k = Inr (dict_get d (SStr k))"
| "py_get v k = Inl (no_attribute v ''get'')"

fun truthy_val :: "pyval \<Rightarrow> bool" where
  "truthy_val (Atom a) = truthy a"
| "truthy_val (PList xs) = (xs \<noteq> [])"
| "truthy_val (PDict kvs) = (kvs \<noteq> [])"

definition handle_search :: "provider \<Rightarrow> pyval \<Rightarrow> (pyexc + pyval) \<times> call list" where
  "handle_search pv query =
     (case requests_get pv query of
        Inl e \<Rightarrow> (Inl e, [RequestsGet query])
      | Inr resp \<Rightarrow>
          (case raise_for_status resp of
             Some e \<Rightarrow> (Inl e, [RequestsGet query])
           | None \<Rightarrow> (resp_json resp, [RequestsGet query])))"

text \<open>\<^verbatim>\<open>interval_map.get(interval, interval)\<close>: a list or dict is unhashable.\<close>

fun map_interval :: "pyval \<Rightarrow> pyexc + pyval" where
  "map_interval (Atom a) =
     Inr (if a = SStr ''minute'' then Atom (SStr ''1m'')
          else if a = SStr ''day'' then Atom (SStr ''1d'')
          else if a = SStr ''week'' then Atom (SStr ''1wk'')
          else if a = SStr ''month'' then Atom (SStr ''1mo'')
          else if a = SStr ''year'' then Atom (SStr ''1y'')
          else Atom a)"
| "map_interval v = Inl (Exc TypeError (''unhashable type: '' @ [CHR 0x27] @ type_name v @ [CHR 0x27]))"

definition records_val :: "pydict list \<Rightarrow> pyval" where
  "records_val recs = PList (map PDict recs)"

definition handle_history ::
  "runtime \<Rightarrow> provider \<Rightarrow> pyval \<Rightarrow> pyval \<Rightarrow> pyval \<Rightarrow> pyval \<Rightarrow> (pyexc + pyval) \<times> call list" where
  "handle_history rt pv symbol start_date end_date interval =
     (case map_interval interval of
        Inl e \<Rightarrow> (Inl e, [])
      | Inr yf_interval \<Rightarrow>
          (case yf_Ticker pv symbol of
             Inl e \<Rightarrow> (Inl e, [TickerNew symbol])
           | Inr tk \<Rightarrow>
               (case t_history tk start_date end_date yf_interval of
                  Inl e \<Rightarrow> (Inl e, [TickerNew symbol])
                | Inr df \<Rightarrow>
                    (case normalize_history rt df of
                       Inl e \<Rightarrow> (Inl e, [TickerNew symbol])
                     | Inr recs \<Rightarrow> (Inr (records_val recs), [TickerNew symbol])))))"

definition handle_news :: "provider \<Rightarrow> pyval \<Rightarrow> (pyexc + pyval) \<times> call list" where
  "handle_news pv symbol =
     (case yf_Ticker pv symbol of
        Inl e \<Rightarrow> (Inl e, [TickerNew symbol])
      | Inr tk \<Rightarrow> (t_news tk, [TickerNew symbol]))"

definition estimate_fields :: "string list" where
  "estimate_fields = [''targetMeanPrice'', ''targetHighPrice'', ''targetLowPrice'',
     ''recommendationMean'', ''recommendationKey'', ''numberOfAnalystOpinions'',
     ''forwardEps'', ''trailingEps'']"

fun get_fields :: "pyval \<Rightarrow> string list \<Rightarrow> pydict \<Rightarrow> pyexc + pydict" where
  "get_fields info [] acc = Inr acc"
| "get_fields info (k # ks) acc =
     (case py_get info k of
        Inl e \<Rightarrow> Inl e
      | Inr v \<Rightarrow> get_fields info ks (dict_set acc (SStr k) v))"

definition handle_estimates :: "provider \<Rightarrow> pyval \<Rightarrow> (pyexc + pyval) \<times> call list" where
  "handle_estimates pv symbol =
     (case yf_Ticker pv symbol of
        Inl e \<Rightarrow> (Inl e, [TickerNew symbol])
      | Inr tk \<Rightarrow>
          (case t_info tk of
             Inl e \<Rightarrow> (Inl e, [TickerNew symbol])
           | Inr i \<Rightarrow>
               (let info = (if truthy_val i then i else PDict []) in
                case get_fields info estimate_fields [] of
                  Inl e \<Rightarrow> (Inl e, [TickerNew symbol])
                | Inr fs \<Rightarrow> (Inr (PDict [(SStr ''info'', PDict fs)]), [TickerNew symbol]))))"

definition handle_info :: "provider \<Rightarrow> pyval \<Rightarrow> (pyexc + pyval) \<times> call list" where
  "handle_info pv symbol =
     (case yf_Ticker pv symbol of
        Inl e \<Rightarrow> (Inl e, [TickerNew symbol])
      | Inr tk \<Rightarrow>
          (case t_info tk of
             Inl e \<Rightarrow> (Inl e, [TickerNew symbol])
           | Inr i \<Rightarrow> (Inr (if truthy_val i then i else PDict []), [TickerNew symbol])))"

text \<open>Lines 130 to 138: the two tables of the statement type, annual first.\<close>

definition select_tables ::
  "ticker \<Rightarrow> pyval \<Rightarrow> (pyexc + dataframe option) \<times> (pyexc + dataframe option)" where
  "select_tables tk statement_type =
     (if statement_type = Atom (SStr ''income'') then (t_financials tk, t_quarterly_financials tk)
      else if statement_type = Atom (SStr ''balance'') then (t_balance_sheet tk, t_quarterly_balance_sheet tk)
      else (t_cashflow tk, t_quarterly_cashflow tk))"

definition handle_statements ::
  "runtime \<Rightarrow> provider \<Rightarrow> pyval \<Rightarrow> pyval \<Rightarrow> (pyexc + pyval) \<times> call list" where
  "handle_statements rt pv symbol statement_type =
     (case yf_Ticker pv symbol of
        Inl e \<Rightarrow> (Inl e, [TickerNew symbol])
      | Inr tk \<Rightarrow>
          (case fst (select_tables tk statement_type) of
             Inl e \<Rightarrow> (Inl e, [TickerNew symbol])
           | Inr annual \<Rightarrow>
               (case snd (select_tables tk statement_type) of
                  Inl e \<Rightarrow> (Inl e, [TickerNew symbol])
                | Inr quarterly \<Rightarrow>
                    (case df_to_records rt annual of
                       Inl e \<Rightarrow> (Inl e, [TickerNew symbol])
                     | Inr a \<Rightarrow>
                         (case df_to_records rt quarterly of
                            Inl e \<Rightarrow> (Inl e, [TickerNew symbol])
                          | Inr q \<Rightarrow>
                              (Inr (PDict [(SStr ''annual'', records_val a),
                                           (SStr ''quarterly'', records_val q)]),
                               [TickerNew symbol]))))))"

section \<open>The dispatcher\<close>

text \<open>\<^verbatim>\<open>respond(True, handler(...))\<close>: the handler runs first; nothing is written if it raises.\<close>

definition respond_with :: "runtime \<Rightarrow> (pyexc + pyval) \<times> call list \<Rightarrow> (pyexc + json list) \<times> call list" where
  "respond_with rt r =
     (case fst r of
        Inl e \<Rightarrow> (Inl e, snd r)
      | Inr data \<Rightarrow> (respond rt True data SNone [], snd r))"

text \<open>Lines 145 to 167: the branch on \<^verbatim>\<open>action\<close>, for a payload that is a dict.\<close>

definition dispatch :: "runtime \<Rightarrow> provider \<Rightarrow> pydict \<Rightarrow> (pyexc + json list) \<times> call list" where
  "dispatch rt pv d =
     (let arg = (\<lambda>k. dict_get d (SStr k)); action = arg ''action'' in
      if action = Atom (SStr ''search'') then
        respond_with rt (handle_search pv (arg ''query''))
      else if action = Atom (SStr ''history'') then
        respond_with rt (handle_history rt pv (arg ''symbol'') (arg ''start_date'')
                           (arg ''end_date'') (arg ''interval''))
      else if action = Atom (SStr ''news'') then
        respond_with rt (handle_news pv (arg ''symbol''))
      else if action = Atom (SStr ''estimates'') then
        respond_with rt (handle_estimates pv (arg ''symbol''))
      else if action = Atom (SStr ''info'') then
        respond_with rt (handle_info pv (arg ''symbol''))
      else if action = Atom (SStr ''statements'') then
        respond_with rt (handle_statements rt pv (arg ''symbol'') (arg ''statement_type''))
      else (respond rt False (Atom SNone) (SStr ''Unsupported action'') [], []))"

text \<open>
  The body of the \<^verbatim>\<open>try\<close> (lines 144 to 167) on the text read from standard input;
  \<^verbatim>\<open>payload.get\<close> raises AttributeError when the parsed text is not an object.
\<close>

definition main_try :: "runtime \<Rightarrow> provider \<Rightarrow> string \<Rightarrow> (pyexc + json list) \<times> call list" where
  "main_try rt pv stdin =
     (case json_loads rt (if stdin \<noteq> [] then stdin else ''{}'') of
        Inl e \<Rightarrow> (Inl e, [])
      | Inr payload \<Rightarrow>
          (case payload of
             PDict d \<Rightarrow> dispatch rt pv d
           | _ \<Rightarrow> (Inl (no_attribute payload ''get''), [])))"

text \<open>
  A run of the process: what was written to standard output, the provider calls made,
  and the exception that left \<open>main\<close> uncaught, if any.
\<close>

record run =
  stdout :: "json list"
  calls :: "call list"
  uncaught :: "pyexc option"

definition main :: "runtime \<Rightarrow> provider \<Rightarrow> string \<Rightarrow> run" where
  "main rt pv stdin =
     (case main_try rt pv stdin of
        (Inr out, cs) \<Rightarrow> \<lparr>stdout = out, calls = cs, uncaught = None\<rparr>
      | (Inl exc, cs) \<Rightarrow>
          (case respond rt False (Atom SNone) (SStr (exc_str exc)) [] of
             Inr out \<Rightarrow> \<lparr>stdout = out, calls = cs, uncaught = None\<rparr>
           | Inl exc' \<Rightarrow> \<lparr>stdout = [], calls = cs, uncaught = Some exc'\<rparr>))"

section \<open>Envelopes and their fields\<close>

definition failure_doc :: "string \<Rightarrow> json" where
  "failure_doc msg = JObj [(''ok'', JBool False), (''error'', JStr msg)]"

definition success_doc :: "json \<Rightarrow> json" where
  "success_doc d = JObj [(''ok'', JBool True), (''data'', d), (''source'', JStr ''yfinance/yahoo'')]"

text \<open>The message of the failure envelope for an exception: \<^verbatim>\<open>str(exc) or "unknown error"\<close>.\<close>

definition error_text :: "pyexc \<Rightarrow> string" where
  "error_text e = (if exc_str e = [] then ''unknown error'' else exc_str e)"

text \<open>
  A document is an envelope with flag \<open>b\<close> when it is an object whose \<^verbatim>\<open>ok\<close> is \<open>b\<close>,
  that has a \<^verbatim>\<open>data\<close> field exactly when \<open>b\<close> is true and an \<^verbatim>\<open>error\<close> field exactly
  when \<open>b\<close> is false.
\<close>

fun envelope :: "bool \<Rightarrow> json \<Rightarrow> bool" where
  "envelope b (JObj kvs) =
     (map_of kvs ''ok'' = Some (JBool b)
      \<and> (''data'' \<in> set (map fst kvs)) = b
      \<and> (''error'' \<in> set (map fst kvs)) = (\<not> b))"
| "envelope b _ = False"

definition actions :: "string list" where
  "actions = [''search'', ''history'', ''news'', ''estimates'', ''info'', ''statements'']"

text \<open>A table is empty for the normalizers when it is absent or has no rows or no columns.\<close>

definition empty_table :: "dataframe option \<Rightarrow> bool" where
  "empty_table dfo = (case dfo of None \<Rightarrow> True | Some df \<Rightarrow> df_empty df)"

text \<open>No integer cell of the table is beyond the range of a float.\<close>

definition ints_in_float_range :: "dataframe \<Rightarrow> bool" where
  "ints_in_float_range df \<longleftrightarrow>
     (\<forall>r \<in> set (df_rows df). \<forall>c \<in> set r. \<forall>i. c = SInt i \<longrightarrow> (\<exists>f. int_to_float i = Inr f))"

text \<open>A record is flat when its keys are strings and its values are scalars.\<close>

definition flat_record :: "pydict \<Rightarrow> bool" where
  "flat_record rec \<longleftrightarrow> (\<forall>(k, v) \<in> set rec. (\<exists>s. k = SStr s) \<and> (\<exists>a. v = Atom a))"

section \<open>Price tables\<close>

text \<open>
  A price table has consistent row lengths, at least one column, and distinct column
  labels (\<open>series_get\<close> reads a label that occurs once).
\<close>

definition price_table :: "dataframe \<Rightarrow> bool" where
  "price_table df \<longleftrightarrow> df_wf df \<and> df_columns df \<noteq> [] \<and> distinct (df_columns df)"

text \<open>The five numeric fields of a history record, each with the column it is read from.\<close>

definition price_fields :: "(string \<times> string) list" where
  "price_fields = [(''open'', ''Open''), (''high'', ''High''), (''low'', ''Low''),
                   (''close'', ''Close''), (''volume'', ''Volume'')]"

section \<open>Example inputs\<close>

text \<open>Request texts: \<open>dq s\<close> is \<open>s\<close> between double quotes.\<close>

definition dq :: "string \<Rightarrow> string" where
  "dq s = CHR 0x22 # s @ [CHR 0x22]"

definition search_request :: string where
  "search_request = ''{'' @ dq ''action'' @ '': '' @ dq ''search'' @ '', ''
                      @ dq ''query'' @ '': '' @ dq ''AAPL'' @ ''}''"

definition statements_request :: string where
  "statements_request = ''{'' @ dq ''action'' @ '': '' @ dq ''statements'' @ '', ''
                          @ dq ''symbol'' @ '': '' @ dq ''AAPL'' @ '', ''
                          @ dq ''statement_type'' @ '': '' @ dq ''income'' @ ''}''"

definition quote_request :: string where
  "quote_request = ''{'' @ dq ''action'' @ '': '' @ dq ''quote'' @ ''}''"

text \<open>
  A runtime for the examples. \<open>example_loads\<close> is \<^verbatim>\<open>json.loads\<close> on the listed texts only:
  the empty object, the three requests above, and the truncated text \<^verbatim>\<open>{\<close>, on which the
  library raises JSONDecodeError with the message given. The examples never reach
  \<^verbatim>\<open>float\<close> of a string or \<^verbatim>\<open>repr\<close> of a float.
\<close>

definition example_loads :: "string \<Rightarrow> pyexc + pyval" where
  "example_loads s =
     (if s = ''{}'' then Inr (PDict [])
      else if s = ''{'' then
        Inl (Exc JSONDecodeError
               ''Expecting property name enclosed in double quotes: line 1 column 2 (char 1)'')
      else if s = search_request then
        Inr (PDict [(SStr ''action'', Atom (SStr ''search'')), (SStr ''query'', Atom (SStr ''AAPL''))])
      else if s = statements_request then
        Inr (PDict [(SStr ''action'', Atom (SStr ''statements'')),
                    (SStr ''symbol'', Atom (SStr ''AAPL'')),
                    (SStr ''statement_type'', Atom (SStr ''income''))])
      else if s = quote_request then
        Inr (PDict [(SStr ''action'', Atom (SStr ''quote''))])
      else Inl (Exc JSONDecodeError ''Expecting value: line 1 column 1 (char 0)''))"

definition example_runtime :: runtime where
  "example_runtime =
     \<lparr>float_of_str = (\<lambda>s. Inl (Exc ValueError ''could not convert string to float'')),
      float_repr = (\<lambda>f. ''nan''),
      json_loads = example_loads\<rparr>"

definition year_end :: "nat \<Rightarrow> pydatetime" where
  "year_end y = \<lparr>dt_date = \<lparr>d_year = y, d_month = 12, d_day = 31\<rparr>, dt_hour = 0, dt_minute = 0,
                 dt_second = 0, dt_microsecond = 0, dt_utcoffset = None\<rparr>"

text \<open>A statement table of two line items over two periods, with one missing cell in each.\<close>

definition example_statement :: dataframe where
  "example_statement =
     \<lparr>df_index_name = SNone,
      df_index = [SStr ''Total Revenue'', SStr ''EBITDA''],
      df_columns = [STimestamp (year_end 2023), STimestamp (year_end 2022)],
      df_rows = [[SInt 42, SFloat FNaN], [SFloat FNaN, SFloat (FFin 7)]]\<rparr>"

definition example_records :: "pydict list" where
  "example_records =
     [[(SStr ''report_period'', Atom (SStr ''2023-12-31'')),
       (SStr ''Total Revenue'', Atom (SFloat (FFin 42)))],
      [(SStr ''report_period'', Atom (SStr ''2022-12-31'')),
       (SStr ''EBITDA'', Atom (SFloat (FFin 7)))]]"

text \<open>A statement table whose only line item is labelled \<^verbatim>\<open>report_period\<close>.\<close>

definition colliding_statement :: dataframe where
  "colliding_statement =
     \<lparr>df_index_name = SNone,
      df_index = [SStr ''report_period''],
      df_columns = [SStr ''2023''],
      df_rows = [[SFloat (FFin 1)]]\<rparr>"

text \<open>A table of one line item and one period holding the integer 42.\<close>

definition single_cell_statement :: dataframe where
  "single_cell_statement =
     \<lparr>df_index_name = SNone,
      df_index = [SStr ''Total Revenue''],
      df_columns = [STimestamp (year_end 2023)],
      df_rows = [[SInt 42]]\<rparr>"

definition trading_day :: "nat \<Rightarrow> pydatetime" where
  "trading_day d = \<lparr>dt_date = \<lparr>d_year = 2024, d_month = 1, d_day = d\<rparr>, dt_hour = 0,
                     dt_minute = 0, dt_second = 0, dt_microsecond = 0, dt_utcoffset = Some (- 300)\<rparr>"

text \<open>Two daily bars; the first has a not-a-number low and an absent close.\<close>

definition example_prices :: dataframe where
  "example_prices =
     \<lparr>df_index_name = SStr ''Date'',
      df_index = [STimestamp (trading_day 2), STimestamp (trading_day 3)],
      df_columns = [SStr ''Open'', SStr ''High'', SStr ''Low'', SStr ''Close'', SStr ''Volume''],
      df_rows = [[SFloat (FFin 10), SFloat (FFin 12), SFloat FNaN, SNone, SInt 100],
                 [SFloat (FFin 11), SFloat (FFin 13), SFloat (FFin 9), SFloat (FFin 12), SInt 200]]\<rparr>"

definition example_prices_reset :: dataframe where
  "example_prices_reset =
     \<lparr>df_index_name = SNone,
      df_index = [SInt 0, SInt 1],
      df_columns = [SStr ''Date'', SStr ''Open'', SStr ''High'', SStr ''Low'', SStr ''Close'',
                    SStr ''Volume''],
      df_rows = [[STimestamp (trading_day 2), SFloat (FFin 10), SFloat (FFin 12), SFloat FNaN,
                  SNone, SInt 100],
                 [STimestamp (trading_day 3), SFloat (FFin 11), SFloat (FFin 13), SFloat (FFin 9),
                  SFloat (FFin 12), SInt 200]]\<rparr>"

definition example_bars :: "pydict list" where
  "example_bars =
     [[(SStr ''date'', Atom (SStr ''2024-01-02T00:00:00-05:00'')),
       (SStr ''open'', Atom (SFloat (FFin 10))), (SStr ''high'', Atom (SFloat (FFin 12))),
       (SStr ''low'', Atom (SFloat FNaN)), (SStr ''close'', Atom SNone),
       (SStr ''volume'', Atom (SFloat (FFin 100)))],
      [(SStr ''date'', Atom (SStr ''2024-01-03T00:00:00-05:00'')),
       (SStr ''open'', Atom (SFloat (FFin 11))), (SStr ''high'', Atom (SFloat (FFin 13))),
       (SStr ''low'', Atom (SFloat (FFin 9))), (SStr ''close'', Atom (SFloat (FFin 12))),
       (SStr ''volume'', Atom (SFloat (FFin 200)))]]"

text \<open>A price table whose \<^verbatim>\<open>Date\<close> index holds seconds since the epoch, as a float.\<close>

definition epoch_prices :: dataframe where
  "epoch_prices =
     \<lparr>df_index_name = SStr ''Date'',
      df_index = [SFloat (FFin 1704153600)],
      df_columns = [SStr ''Open''],
      df_rows = [[SFloat (FFin 1)]]\<rparr>"

text \<open>A provider that is unreachable, and one that serves the example tables.\<close>

definition failing_provider :: provider where
  "failing_provider =
     \<lparr>requests_get = (\<lambda>q. Inl (Exc ProviderError ''Max retries exceeded with url: /v1/finance/search'')),
      yf_Ticker = (\<lambda>s. Inl (Exc ProviderError ''Failed to resolve host''))\<rparr>"

definition no_rows :: dataframe where
  "no_rows = \<lparr>df_index_name = SNone, df_index = [], df_columns = [], df_rows = []\<rparr>"

definition example_ticker :: ticker where
  "example_ticker =
     \<lparr>t_history = (\<lambda>s e i. Inr (Some example_prices)),
      t_news = Inr (PList []),
      t_info = Inr (PDict []),
      t_financials = Inr (Some no_rows),
      t_quarterly_financials = Inr (Some example_statement),
      t_balance_sheet = Inr None,
      t_quarterly_balance_sheet = Inr None,
      t_cashflow = Inr None,
      t_quarterly_cashflow = Inr None\<rparr>"

definition example_provider :: provider where
  "example_provider =
     \<lparr>requests_get = (\<lambda>q. Inl (Exc ProviderError ''Max retries exceeded with url: /v1/finance/search'')),
      yf_Ticker = (\<lambda>s. Inr example_ticker)\<rparr>"

text \<open>The example records as the documents written for them.\<close>

definition example_records_json :: "json list" where
  "example_records_json =
     [JObj [(''report_period'', JStr ''2023-12-31''), (''Total Revenue'', JFloat (FFin 42))],
      JObj [(''report_period'', JStr ''2022-12-31''), (''EBITDA'', JFloat (FFin 7))]]"

section \<open>Properties of the statement normalizer\<close>

lemma bit_length_le: "bit_length n \<le> k \<longleftrightarrow> n < 2 ^ k"
proof (induction n arbitrary: k rule: bit_length.induct)
  case (1 n)
  show ?case
  proof (cases "n = 0")
    case True
    then show ?thesis by (simp add: bit_length.simps)
  next
    case False
    show ?thesis
    proof (cases k)
      case 0
      with False show ?thesis by (simp add: bit_length.simps)
    next
      case (Suc k')
      have "bit_length n \<le> Suc k' \<longleftrightarrow> bit_length (n div 2) \<le> k'"
        using False by (subst bit_length.simps) simp
      also have "\<dots> \<longleftrightarrow> n div 2 < 2 ^ k'" using 1 False by simp
      also have "\<dots> \<longleftrightarrow> n < 2 ^ Suc k'" by auto
      finally show ?thesis using Suc by simp
    qed
  qed
qed

lemma int_to_float_exact: "\<bar>i\<bar> < 2 ^ 53 \<Longrightarrow> int_to_float i = Inr (FFin (of_int i))"
proof -
  assume a: "\<bar>i\<bar> < 2 ^ 53"
  have "nat \<bar>i\<bar> < 2 ^ 53" using a by (simp add: nat_less_iff)
  then have "bit_length (nat \<bar>i\<bar>) \<le> 53" by (simp add: bit_length_le)
  then show ?thesis by (simp add: int_to_float_def Let_def)
qed

lemma int_to_float_finite: "int_to_float i = Inr f \<Longrightarrow> \<exists>r. f = FFin r"
  unfolding int_to_float_def Let_def by (auto split: if_splits)

lemma coerce_cell_not_missing:
  "\<not> pd_isna val \<Longrightarrow> coerce_cell rt val = Inr v \<Longrightarrow> \<not> pd_isna v"
proof (cases val)
  case (SInt i)
  assume "coerce_cell rt val = Inr v"
  with SInt obtain f where "int_to_float i = Inr f" "v = SFloat f"
    by (auto simp: coerce_cell_def split: sum.splits)
  then show ?thesis using int_to_float_finite by fastforce
qed (auto simp: coerce_cell_def split: sum.splits if_splits)

lemma map_of_dict_set: "map_of (dict_set d k v) = (map_of d)(k \<mapsto> v)"
  by (induction d) auto

lemma dict_get_dict_set:
  "dict_get (dict_set d k v) k' = (if k' = k then v else dict_get d k')"
  by (simp add: dict_get_def map_of_dict_set)

lemma set_dict_set: "set (dict_set d k v) \<subseteq> insert (k, v) (set d)"
  by (induction d) (auto split: if_splits)

lemma keys_dict_set: "fst ` set (dict_set d k v) = insert k (fst ` set d)"
proof (induction d)
  case Nil
  then show ?case by simp
next
  case (Cons p d)
  obtain k' v' where p: "p = (k', v')" by (cases p)
  show ?case
  proof (cases "k' = k")
    case True
    with p show ?thesis by simp
  next
    case False
    with p Cons show ?thesis by (simp add: insert_commute)
  qed
qed

lemma add_items_fields:
  "add_items rt items rec = Inr rec' \<Longrightarrow> (k, v) \<in> set rec' \<Longrightarrow>
     (k, v) \<in> set rec \<or>
     (\<exists>key val w. (key, val) \<in> set items \<and> \<not> pd_isna val \<and> coerce_cell rt val = Inr w
        \<and> k = SStr (py_str rt key) \<and> v = Atom w)"
proof (induction items arbitrary: rec)
  case Nil
  then show ?case by simp
next
  case (Cons item items)
  obtain key val where item: "item = (key, val)" by (cases item)
  show ?case
  proof (cases "pd_isna val")
    case True
    with Cons.prems item have "add_items rt items rec = Inr rec'" by simp
    from Cons.IH [OF this Cons.prems(2)] show ?thesis by auto
  next
    case False
    with Cons.prems item obtain w where w: "coerce_cell rt val = Inr w"
      and rest: "add_items rt items (dict_set rec (SStr (py_str rt key)) (Atom w)) = Inr rec'"
      by (auto split: sum.splits)
    from Cons.IH [OF rest Cons.prems(2)]
    consider "(k, v) \<in> set (dict_set rec (SStr (py_str rt key)) (Atom w))"
      | "\<exists>key val w. (key, val) \<in> set items \<and> \<not> pd_isna val \<and> coerce_cell rt val = Inr w
            \<and> k = SStr (py_str rt key) \<and> v = Atom w"
      by blast
    then show ?thesis
    proof cases
      case 1
      then have "(k, v) = (SStr (py_str rt key), Atom w) \<or> (k, v) \<in> set rec"
        using set_dict_set by fastforce
      then show ?thesis using False w item by auto
    next
      case 2
      then show ?thesis by auto
    qed
  qed
qed

lemma add_items_keys:
  "add_items rt items rec = Inr rec' \<Longrightarrow> k \<in> fst ` set rec \<Longrightarrow> k \<in> fst ` set rec'"
proof (induction items arbitrary: rec)
  case Nil
  then show ?case by simp
next
  case (Cons item items)
  obtain key val where item: "item = (key, val)" by (cases item)
  show ?case
  proof (cases "pd_isna val")
    case True
    with Cons item show ?thesis by simp
  next
    case False
    with Cons.prems item obtain w where
      rest: "add_items rt items (dict_set rec (SStr (py_str rt key)) (Atom w)) = Inr rec'"
      by (auto split: sum.splits)
    have "k \<in> fst ` set (dict_set rec (SStr (py_str rt key)) (Atom w))"
      using Cons.prems(2) by (simp add: keys_dict_set)
    from Cons.IH [OF rest this] show ?thesis .
  qed
qed

lemma add_items_untouched:
  "add_items rt items rec = Inr rec' \<Longrightarrow>
   (\<forall>(key, val) \<in> set items. \<not> pd_isna val \<longrightarrow> SStr (py_str rt key) \<noteq> k) \<Longrightarrow>
   dict_get rec' k = dict_get rec k"
proof (induction items arbitrary: rec)
  case Nil
  then show ?case by simp
next
  case (Cons item items)
  obtain key val where item: "item = (key, val)" by (cases item)
  have rest_ok: "\<forall>(key, val) \<in> set items. \<not> pd_isna val \<longrightarrow> SStr (py_str rt key) \<noteq> k"
    using Cons.prems(2) by auto
  show ?case
  proof (cases "pd_isna val")
    case True
    with Cons.prems item have "add_items rt items rec = Inr rec'" by simp
    from Cons.IH [OF this rest_ok] show ?thesis .
  next
    case False
    with Cons.prems item obtain w where
      rest: "add_items rt items (dict_set rec (SStr (py_str rt key)) (Atom w)) = Inr rec'"
      by (auto split: sum.splits)
    have "SStr (py_str rt key) \<noteq> k" using Cons.prems(2) item False by auto
    with Cons.IH [OF rest rest_ok] show ?thesis by (simp add: dict_get_dict_set)
  qed
qed

lemma records_loop_nth:
  "records_loop rt rows = Inr recs \<Longrightarrow>
   length recs = length rows \<and>
   (\<forall>j < length rows.
      add_items rt (snd (rows ! j))
        [(SStr ''report_period'', Atom (SStr (py_str rt (fst (rows ! j)))))] = Inr (recs ! j))"
proof (induction rows arbitrary: recs)
  case Nil
  then show ?case by simp
next
  case (Cons row rows)
  obtain idx items where row: "row = (idx, items)" by (cases row)
  from Cons.prems row obtain rec recs' where
    rec: "add_items rt items [(SStr ''report_period'', Atom (SStr (py_str rt idx)))] = Inr rec"
    and rest: "records_loop rt rows = Inr recs'" and recs: "recs = rec # recs'"
    by (auto split: sum.splits)
  from Cons.IH [OF rest] show ?case using rec recs row
    by (auto simp: nth_Cons split: nat.splits)
qed

lemma rekey_column_str: "\<exists>s. rekey_column rt c = SStr s"
  by (simp add: rekey_column_def split: sum.splits)

lemma py_str_rekey: "SStr (py_str rt (rekey_column rt c)) = rekey_column rt c"
  using rekey_column_str [of rt c] by auto

lemma column_cells_columns_update [simp]:
  "column_cells (df\<lparr>df_columns := cs\<rparr>) j = column_cells df j"
  by (simp add: column_cells_def)

lemma df_to_records_nth:
  assumes "df_to_records rt (Some df) = Inr recs" and "\<not> df_empty df"
  shows "length recs = length (df_columns df)"
    and "j < length (df_columns df) \<Longrightarrow>
         add_items rt (column_cells df j)
           [(SStr ''report_period'', Atom (rekey_column rt (df_columns df ! j)))] = Inr (recs ! j)"
proof -
  let ?rows = "transposed_rows (df\<lparr>df_columns := map (rekey_column rt) (df_columns df)\<rparr>)"
  from assms have loop: "records_loop rt ?rows = Inr recs"
    by (simp add: df_to_records_def)
  have len: "length ?rows = length (df_columns df)"
    by (simp add: transposed_rows_def)
  from records_loop_nth [OF loop] len show "length recs = length (df_columns df)" by simp
  assume j: "j < length (df_columns df)"
  then have "?rows ! j = (rekey_column rt (df_columns df ! j), column_cells df j)"
    by (simp add: transposed_rows_def)
  moreover from records_loop_nth [OF loop] j len have
    "add_items rt (snd (?rows ! j))
       [(SStr ''report_period'', Atom (SStr (py_str rt (fst (?rows ! j)))))] = Inr (recs ! j)"
    by simp
  ultimately show
    "add_items rt (column_cells df j)
       [(SStr ''report_period'', Atom (rekey_column rt (df_columns df ! j)))] = Inr (recs ! j)"
    by (simp add: py_str_rekey)
qed

lemma year_end_iso_2023: "date_isoformat (dt_date (year_end 2023)) = ''2023-12-31''"
  by code_simp

lemma year_end_iso_2022: "date_isoformat (dt_date (year_end 2022)) = ''2022-12-31''"
  by code_simp

lemma rekey_year_end:
  "rekey_column rt (STimestamp (year_end y)) = SStr (date_isoformat (dt_date (year_end y)))"
  by (simp add: rekey_column_def)

lemma coerce_cell_small_int:
  "\<bar>i\<bar> < 2 ^ 53 \<Longrightarrow> coerce_cell rt (SInt i) = Inr (SFloat (FFin (of_int i)))"
  by (simp add: coerce_cell_def int_to_float_exact)

lemma coerce_cell_float: "coerce_cell rt (SFloat f) = Inr (SFloat f)"
  by (simp add: coerce_cell_def)

lemma example_statement_records:
  "df_to_records example_runtime (Some example_statement) = Inr example_records"
  by (simp add: df_to_records_def df_empty_def example_statement_def example_records_def
      transposed_rows_def column_cells_def rekey_year_end year_end_iso_2023 year_end_iso_2022
      coerce_cell_small_int coerce_cell_float upt_rec)

text \<open>
  C1 (as the code has it). When the statement normalizer returns, the record of period
  \<open>j\<close> holds, besides the initial \<^verbatim>\<open>report_period\<close> field (the period label as a string),
  only fields that come from a cell of that period which is not missing: the key is the
  row label's string form and the value the coerced cell, itself not missing. So no field
  comes from a cell holding the not-a-number sentinel. Every record has a
  \<^verbatim>\<open>report_period\<close> field, and it is the period label as a string whenever no cell that
  is present has a row label whose string form is \<^verbatim>\<open>report_period\<close>.
\<close>

theorem df_to_records_fields:
  assumes ret: "df_to_records rt (Some df) = Inr recs" and j: "j < length recs"
  shows "(\<forall>(k, v) \<in> set (recs ! j).
            (k = SStr ''report_period'' \<and> v = Atom (rekey_column rt (df_columns df ! j)))
            \<or> (\<exists>(key, val) \<in> set (column_cells df j). \<exists>w.
                  \<not> pd_isna val \<and> coerce_cell rt val = Inr w \<and> \<not> pd_isna w
                  \<and> k = SStr (py_str rt key) \<and> v = Atom w))
         \<and> SStr ''report_period'' \<in> fst ` set (recs ! j)
         \<and> ((\<forall>(key, val) \<in> set (column_cells df j).
                \<not> pd_isna val \<longrightarrow> py_str rt key \<noteq> ''report_period'')
              \<longrightarrow> (\<exists>s. dict_get (recs ! j) (SStr ''report_period'') = Atom (SStr s)
                       \<and> SStr s = rekey_column rt (df_columns df ! j)))"
proof -
  have ne: "\<not> df_empty df"
    using ret j by (auto simp: df_to_records_def split: if_splits)
  let ?init = "[(SStr ''report_period'', Atom (rekey_column rt (df_columns df ! j)))]"
  from df_to_records_nth(1) [OF ret ne] j have j': "j < length (df_columns df)" by simp
  from df_to_records_nth(2) [OF ret ne j']
  have items: "add_items rt (column_cells df j) ?init = Inr (recs ! j)" .
  have fields: "\<forall>(k, v) \<in> set (recs ! j).
            (k = SStr ''report_period'' \<and> v = Atom (rekey_column rt (df_columns df ! j)))
            \<or> (\<exists>(key, val) \<in> set (column_cells df j). \<exists>w.
                  \<not> pd_isna val \<and> coerce_cell rt val = Inr w \<and> \<not> pd_isna w
                  \<and> k = SStr (py_str rt key) \<and> v = Atom w)"
  proof (clarify)
    fix k v
    assume kv: "(k, v) \<in> set (recs ! j)"
      and no: "\<not> (\<exists>(key, val) \<in> set (column_cells df j). \<exists>w.
                  \<not> pd_isna val \<and> coerce_cell rt val = Inr w \<and> \<not> pd_isna w
                  \<and> k = SStr (py_str rt key) \<and> v = Atom w)"
    from add_items_fields [OF items kv]
    consider "(k, v) \<in> set ?init"
      | key val w where "(key, val) \<in> set (column_cells df j)" "\<not> pd_isna val"
          "coerce_cell rt val = Inr w" "k = SStr (py_str rt key)" "v = Atom w"
      by blast
    then show "k = SStr ''report_period'' \<and> v = Atom (rekey_column rt (df_columns df ! j))"
    proof cases
      case 1
      then show ?thesis by simp
    next
      case 2
      with coerce_cell_not_missing [OF 2(2) 2(3)] no show ?thesis by blast
    qed
  qed
  have key: "SStr ''report_period'' \<in> fst ` set (recs ! j)"
    by (rule add_items_keys [OF items]) simp
  have period: "(\<forall>(key, val) \<in> set (column_cells df j).
                \<not> pd_isna val \<longrightarrow> py_str rt key \<noteq> ''report_period'')
              \<longrightarrow> (\<exists>s. dict_get (recs ! j) (SStr ''report_period'') = Atom (SStr s)
                       \<and> SStr s = rekey_column rt (df_columns df ! j))"
  proof
    assume "\<forall>(key, val) \<in> set (column_cells df j).
                \<not> pd_isna val \<longrightarrow> py_str rt key \<noteq> ''report_period''"
    then have "\<forall>(key, val) \<in> set (column_cells df j).
                \<not> pd_isna val \<longrightarrow> SStr (py_str rt key) \<noteq> SStr ''report_period''"
      by auto
    from add_items_untouched [OF items this]
    have "dict_get (recs ! j) (SStr ''report_period'') = Atom (rekey_column rt (df_columns df ! j))"
      by (simp add: dict_get_def)
    moreover obtain s where "rekey_column rt (df_columns df ! j) = SStr s"
      using rekey_column_str by blast
    ultimately show "\<exists>s. dict_get (recs ! j) (SStr ''report_period'') = Atom (SStr s)
                       \<and> SStr s = rekey_column rt (df_columns df ! j)"
      by simp
  qed
  from fields key period show ?thesis by blast
qed

theorem df_to_records_fields_witness:
  "df_to_records example_runtime (Some example_statement) = Inr example_records
   \<and> (0::nat) < length example_records
   \<and> SStr ''report_period'' \<in> fst ` set (example_records ! 0)"
proof -
  have h1: "df_to_records example_runtime (Some example_statement) = Inr example_records"
    by (rule example_statement_records)
  have h2: "(0::nat) < length example_records"
    by (simp add: example_records_def)
  from df_to_records_fields [OF h1 h2]
  have "SStr ''report_period'' \<in> fst ` set (example_records ! 0)" by blast
  with h1 h2 show ?thesis by blast
qed

text \<open>
  C1 as stated fails: a line item labelled \<^verbatim>\<open>report_period\<close> overwrites the field, and
  the record's \<^verbatim>\<open>report_period\<close> is then the number 1.0, not a string.
\<close>

theorem report_period_overwritten:
  "df_to_records example_runtime (Some colliding_statement)
     = Inr [[(SStr ''report_period'', Atom (SFloat (FFin 1)))]]"
  by (simp add: df_to_records_def df_empty_def colliding_statement_def transposed_rows_def
      column_cells_def rekey_column_def coerce_cell_def)

text \<open>
  C7. A table of one row (label \<open>r\<close>) and one column (label \<open>c\<close>) whose cell \<open>x\<close> is
  present yields exactly one record: the period field, then the field \<^verbatim>\<open>str(r)\<close> set to
  the coerced cell. The record has no other key, and the integer 42 is coerced to the
  float 42.0.
\<close>

theorem df_to_records_single_cell:
  assumes "df_index df = [r]" and "df_columns df = [c]" and "df_rows df = [[x]]"
    and "\<not> pd_isna x" and "coerce_cell rt x = Inr w"
  shows "df_to_records rt (Some df)
           = Inr [dict_set [(SStr ''report_period'', Atom (rekey_column rt c))]
                    (SStr (py_str rt r)) (Atom w)]
         \<and> dict_get (dict_set [(SStr ''report_period'', Atom (rekey_column rt c))]
                      (SStr (py_str rt r)) (Atom w)) (SStr (py_str rt r)) = Atom w
         \<and> fst ` set (dict_set [(SStr ''report_period'', Atom (rekey_column rt c))]
                      (SStr (py_str rt r)) (Atom w))
             = {SStr ''report_period'', SStr (py_str rt r)}
         \<and> coerce_cell rt (SInt 42) = Inr (SFloat (FFin 42))"
proof -
  have "coerce_cell rt (SInt 42) = Inr (SFloat (FFin 42))"
    using coerce_cell_small_int [of 42 rt] by simp
  moreover have "df_to_records rt (Some df)
           = Inr [dict_set [(SStr ''report_period'', Atom (rekey_column rt c))]
                    (SStr (py_str rt r)) (Atom w)]"
    using assms
    by (simp add: df_to_records_def df_empty_def transposed_rows_def column_cells_def
        py_str_rekey del: dict_set.simps)
  moreover have "dict_get (dict_set [(SStr ''report_period'', Atom (rekey_column rt c))]
                      (SStr (py_str rt r)) (Atom w)) (SStr (py_str rt r)) = Atom w"
    by (simp add: dict_get_dict_set del: dict_set.simps)
  moreover have "fst ` set (dict_set [(SStr ''report_period'', Atom (rekey_column rt c))]
                      (SStr (py_str rt r)) (Atom w))
             = {SStr ''report_period'', SStr (py_str rt r)}"
    by (simp add: keys_dict_set insert_commute del: dict_set.simps)
  ultimately show ?thesis
    by blast
qed

theorem df_to_records_single_cell_witness:
  "df_to_records example_runtime (Some single_cell_statement)
     = Inr [[(SStr ''report_period'', Atom (SStr ''2023-12-31'')),
             (SStr ''Total Revenue'', Atom (SFloat (FFin 42)))]]"
proof -
  have c: "coerce_cell example_runtime (SInt 42) = Inr (SFloat (FFin 42))"
    using coerce_cell_small_int [of 42 example_runtime] by simp
  have "df_to_records example_runtime (Some single_cell_statement)
          = Inr [dict_set [(SStr ''report_period'',
                            Atom (rekey_column example_runtime (STimestamp (year_end 2023))))]
                   (SStr (py_str example_runtime (SStr ''Total Revenue'')))
                   (Atom (SFloat (FFin 42)))]"
    using df_to_records_single_cell [of single_cell_statement "SStr ''Total Revenue''"
        "STimestamp (year_end 2023)" "SInt 42" example_runtime "SFloat (FFin 42)"] c
    by (simp add: single_cell_statement_def)
  then show ?thesis
    by (simp add: rekey_year_end year_end_iso_2023)
qed

section \<open>Properties of the history normalizer\<close>

lemma history_loop_nth:
  "history_loop rt rows = Inr recs \<Longrightarrow>
   length recs = length rows \<and>
   (\<forall>i < length rows. history_record rt (rows ! i) = Inr (recs ! i))"
proof (induction rows arbitrary: recs)
  case Nil
  then show ?case by simp
next
  case (Cons row rows)
  from Cons.prems obtain rec recs' where
    rec: "history_record rt row = Inr rec"
    and rest: "history_loop rt rows = Inr recs'" and recs: "recs = rec # recs'"
    by (auto split: sum.splits)
  from Cons.IH [OF rest] show ?case using rec recs
    by (auto simp: nth_Cons split: nat.splits)
qed

lemma float_field_cases:
  "float_field rt row k = Inr v \<Longrightarrow>
     (series_get row (SStr k) = SNone \<and> v = SNone)
     \<or> (series_get row (SStr k) \<noteq> SNone
         \<and> (\<exists>f. py_float rt (series_get row (SStr k)) = Inr f \<and> v = SFloat f))"
  by (auto simp: float_field_def split: if_splits sum.splits)

lemma history_record_shape:
  "history_record rt row = Inr rec \<Longrightarrow>
   \<exists>op hi lo cl vo.
     float_field rt row ''Open'' = Inr op \<and> float_field rt row ''High'' = Inr hi
     \<and> float_field rt row ''Low'' = Inr lo \<and> float_field rt row ''Close'' = Inr cl
     \<and> float_field rt row ''Volume'' = Inr vo
     \<and> rec = [(SStr ''date'', Atom (date_value row)), (SStr ''open'', Atom op),
              (SStr ''high'', Atom hi), (SStr ''low'', Atom lo), (SStr ''close'', Atom cl),
              (SStr ''volume'', Atom vo)]"
  by (auto simp: history_record_def Let_def split: sum.splits)

lemma history_record_field:
  assumes "history_record rt row = Inr rec" and "(k, col) \<in> set price_fields"
  shows "\<exists>v. float_field rt row col = Inr v \<and> dict_get rec (SStr k) = Atom v"
proof -
  from history_record_shape [OF assms(1)] obtain op hi lo cl vo where
    f: "float_field rt row ''Open'' = Inr op" "float_field rt row ''High'' = Inr hi"
       "float_field rt row ''Low'' = Inr lo" "float_field rt row ''Close'' = Inr cl"
       "float_field rt row ''Volume'' = Inr vo"
    and rec: "rec = [(SStr ''date'', Atom (date_value row)), (SStr ''open'', Atom op),
              (SStr ''high'', Atom hi), (SStr ''low'', Atom lo), (SStr ''close'', Atom cl),
              (SStr ''volume'', Atom vo)]"
    by blast
  from assms(2) have "(k = ''open'' \<and> col = ''Open'') \<or> (k = ''high'' \<and> col = ''High'')
    \<or> (k = ''low'' \<and> col = ''Low'') \<or> (k = ''close'' \<and> col = ''Close'')
    \<or> (k = ''volume'' \<and> col = ''Volume'')"
    unfolding price_fields_def by simp
  then show ?thesis
    by (elim disjE conjE) (simp_all add: f rec dict_get_def)
qed

lemma history_record_date:
  assumes "history_record rt row = Inr rec"
  shows "dict_get rec (SStr ''date'') = Atom (date_value row)"
    and "map fst rec = [SStr ''date'', SStr ''open'', SStr ''high'', SStr ''low'',
                        SStr ''close'', SStr ''volume'']"
  using history_record_shape [OF assms] by (auto simp: dict_get_def)

lemma normalize_history_nth:
  assumes "normalize_history rt (Some df) = Inr recs" and "\<not> df_empty df"
  shows "\<exists>df'. reset_index rt df = Inr df' \<and> length recs = length (iterrows df')
           \<and> (\<forall>i < length recs. history_record rt (iterrows df' ! i) = Inr (recs ! i))"
proof -
  from assms obtain df' where r: "reset_index rt df = Inr df'"
    and loop: "history_loop rt (iterrows df') = Inr recs"
    by (auto simp: normalize_history_def split: sum.splits)
  from history_loop_nth [OF loop] r show ?thesis by auto
qed

lemma reset_index_rows:
  assumes "reset_index rt df = Inr df'" and "df_wf df"
  shows "length (iterrows df') = length (df_index df)"
  using assms
  by (auto simp: reset_index_def Let_def iterrows_def df_wf_def split: if_splits)

lemma example_day_2: "datetime_isoformat (trading_day 2) = ''2024-01-02T00:00:00-05:00''"
  by code_simp

lemma example_day_3: "datetime_isoformat (trading_day 3) = ''2024-01-03T00:00:00-05:00''"
  by code_simp

lemma example_prices_table: "price_table example_prices"
  by (simp add: price_table_def df_wf_def example_prices_def)

lemma example_prices_reset_index:
  "reset_index example_runtime example_prices = Inr example_prices_reset"
  by (simp add: reset_index_def example_prices_def example_prices_reset_def upt_rec)

lemma example_prices_bars:
  "normalize_history example_runtime (Some example_prices) = Inr example_bars"
  by (simp add: normalize_history_def df_empty_def example_prices_reset_index)
     (simp add: example_prices_def example_prices_reset_def example_bars_def iterrows_def
        history_record_def float_field_def series_get_def date_value_def
        example_day_2 example_day_3 int_to_float_exact)

text \<open>
  C2. For a price table (consistent rows, at least one column, distinct column labels) on
  which the history normalizer returns, the output has one record per row of the table,
  every record has exactly the keys date, open, high, low, close, volume in this order,
  and each of the five numeric fields is a float or None. An absent table gives the
  empty sequence.
\<close>

theorem normalize_history_shape:
  assumes pt: "price_table df" and ret: "normalize_history rt (Some df) = Inr recs"
  shows "length recs = length (df_index df)
         \<and> (\<forall>rec \<in> set recs.
              map fst rec = [SStr ''date'', SStr ''open'', SStr ''high'', SStr ''low'',
                             SStr ''close'', SStr ''volume'']
              \<and> (\<forall>(k, col) \<in> set price_fields.
                    dict_get rec (SStr k) = Atom SNone
                    \<or> (\<exists>f. dict_get rec (SStr k) = Atom (SFloat f))))
         \<and> normalize_history rt None = Inr []"
proof (cases "df_empty df")
  case True
  with pt have "df_index df = []" by (simp add: df_empty_def price_table_def)
  moreover from True ret have "recs = []" by (simp add: normalize_history_def)
  ultimately show ?thesis by (simp add: normalize_history_def)
next
  case False
  from normalize_history_nth [OF ret False] obtain df' where
    r: "reset_index rt df = Inr df'" and len: "length recs = length (iterrows df')"
    and nth: "\<forall>i < length recs. history_record rt (iterrows df' ! i) = Inr (recs ! i)"
    by blast
  from pt have wf: "df_wf df" by (simp add: price_table_def)
  have "length recs = length (df_index df)"
    using len reset_index_rows [OF r wf] by simp
  moreover have "\<forall>rec \<in> set recs.
              map fst rec = [SStr ''date'', SStr ''open'', SStr ''high'', SStr ''low'',
                             SStr ''close'', SStr ''volume'']
              \<and> (\<forall>(k, col) \<in> set price_fields.
                    dict_get rec (SStr k) = Atom SNone
                    \<or> (\<exists>f. dict_get rec (SStr k) = Atom (SFloat f)))"
  proof
    fix rec
    assume "rec \<in> set recs"
    then obtain i where i: "i < length recs" and rec: "rec = recs ! i"
      by (auto simp: in_set_conv_nth)
    with nth have hr: "history_record rt (iterrows df' ! i) = Inr rec" by simp
    have "\<forall>(k, col) \<in> set price_fields.
            dict_get rec (SStr k) = Atom SNone \<or> (\<exists>f. dict_get rec (SStr k) = Atom (SFloat f))"
    proof (clarify)
      fix k col
      assume kc: "(k, col) \<in> set price_fields"
        and "\<not> (\<exists>f. dict_get rec (SStr k) = Atom (SFloat f))"
      with history_record_field [OF hr kc] float_field_cases
      show "dict_get rec (SStr k) = Atom SNone" by fastforce
    qed
    with history_record_date(2) [OF hr]
    show "map fst rec = [SStr ''date'', SStr ''open'', SStr ''high'', SStr ''low'',
                             SStr ''close'', SStr ''volume'']
              \<and> (\<forall>(k, col) \<in> set price_fields.
                    dict_get rec (SStr k) = Atom SNone
                    \<or> (\<exists>f. dict_get rec (SStr k) = Atom (SFloat f)))"
      by simp
  qed
  ultimately show ?thesis by (simp add: normalize_history_def)
qed

theorem normalize_history_shape_witness:
  "price_table example_prices
   \<and> normalize_history example_runtime (Some example_prices) = Inr example_bars
   \<and> length example_bars = length (df_index example_prices)"
proof -
  have h1: "price_table example_prices" by (rule example_prices_table)
  have h2: "normalize_history example_runtime (Some example_prices) = Inr example_bars"
    by (rule example_prices_bars)
  from normalize_history_shape [OF h1 h2]
  have "length example_bars = length (df_index example_prices)" by blast
  with h1 h2 show ?thesis by blast
qed

text \<open>
  C6 (as the code has it). The date value of a row is its \<^verbatim>\<open>Date\<close> cell when that is
  truthy, otherwise its \<^verbatim>\<open>Datetime\<close> cell. The \<^verbatim>\<open>date\<close> field of the record is the ISO
  text of that value when it has \<^verbatim>\<open>to_pydatetime\<close> or \<^verbatim>\<open>isoformat\<close>; otherwise it is the
  value itself, unchanged (not its string form); it is None when both cells are absent.
\<close>

theorem history_date_field:
  assumes pt: "price_table df" and ret: "normalize_history rt (Some df) = Inr recs"
    and reset: "reset_index rt df = Inr df'" and i: "i < length recs"
    and dv: "dv = (if truthy (series_get (iterrows df' ! i) (SStr ''Date''))
                   then series_get (iterrows df' ! i) (SStr ''Date'')
                   else series_get (iterrows df' ! i) (SStr ''Datetime''))"
  shows "dict_get (recs ! i) (SStr ''date'')
           = Atom (if has_to_pydatetime dv \<or> has_isoformat dv then SStr (to_iso dv) else dv)
         \<and> (series_get (iterrows df' ! i) (SStr ''Date'') = SNone
              \<and> series_get (iterrows df' ! i) (SStr ''Datetime'') = SNone
            \<longrightarrow> dict_get (recs ! i) (SStr ''date'') = Atom SNone)
         \<and> (\<forall>t. dv = STimestamp t
              \<longrightarrow> dict_get (recs ! i) (SStr ''date'') = Atom (SStr (datetime_isoformat t)))"
proof -
  have ne: "\<not> df_empty df"
    using ret i by (auto simp: normalize_history_def split: if_splits)
  from normalize_history_nth [OF ret ne] reset i
  have hr: "history_record rt (iterrows df' ! i) = Inr (recs ! i)" by auto
  have d: "dict_get (recs ! i) (SStr ''date'')
           = Atom (if has_to_pydatetime dv \<or> has_isoformat dv then SStr (to_iso dv) else dv)"
    using history_record_date(1) [OF hr] dv by (simp add: date_value_def Let_def)
  moreover have "series_get (iterrows df' ! i) (SStr ''Date'') = SNone
              \<and> series_get (iterrows df' ! i) (SStr ''Datetime'') = SNone
            \<longrightarrow> dict_get (recs ! i) (SStr ''date'') = Atom SNone"
    using d dv by simp
  moreover have "\<forall>t. dv = STimestamp t
              \<longrightarrow> dict_get (recs ! i) (SStr ''date'') = Atom (SStr (datetime_isoformat t))"
    using d by simp
  ultimately show ?thesis by blast
qed

theorem history_date_field_witness:
  "price_table example_prices
   \<and> normalize_history example_runtime (Some example_prices) = Inr example_bars
   \<and> reset_index example_runtime example_prices = Inr example_prices_reset
   \<and> (0::nat) < length example_bars
   \<and> dict_get (example_bars ! 0) (SStr ''date'')
       = Atom (SStr (datetime_isoformat (trading_day 2)))"
proof -
  have h1: "price_table example_prices" by (rule example_prices_table)
  have h2: "normalize_history example_runtime (Some example_prices) = Inr example_bars"
    by (rule example_prices_bars)
  have h3: "reset_index example_runtime example_prices = Inr example_prices_reset"
    by (rule example_prices_reset_index)
  have h4: "(0::nat) < length example_bars" by (simp add: example_bars_def)
  have h5: "STimestamp (trading_day 2)
              = (if truthy (series_get (iterrows example_prices_reset ! 0) (SStr ''Date''))
                 then series_get (iterrows example_prices_reset ! 0) (SStr ''Date'')
                 else series_get (iterrows example_prices_reset ! 0) (SStr ''Datetime''))"
    by (simp add: example_prices_reset_def iterrows_def series_get_def)
  from history_date_field [OF h1 h2 h3 h4 h5]
  have "dict_get (example_bars ! 0) (SStr ''date'')
          = Atom (SStr (datetime_isoformat (trading_day 2)))"
    by blast
  with h1 h2 h3 h4 show ?thesis by blast
qed

text \<open>
  C6 as stated fails: a \<^verbatim>\<open>Date\<close> value without date/time attributes is emitted as it
  is. The float 1704153600.0 stays a number; it is not replaced by its string form.
\<close>

theorem date_not_stringified:
  "normalize_history example_runtime (Some epoch_prices)
     = Inr [[(SStr ''date'', Atom (SFloat (FFin 1704153600))),
             (SStr ''open'', Atom (SFloat (FFin 1))),
             (SStr ''high'', Atom SNone), (SStr ''low'', Atom SNone),
             (SStr ''close'', Atom SNone), (SStr ''volume'', Atom SNone)]]"
  by (simp add: normalize_history_def df_empty_def epoch_prices_def reset_index_def
      iterrows_def history_record_def float_field_def series_get_def date_value_def)

text \<open>
  C10. In a history row, a price cell that holds the not-a-number sentinel is emitted as
  the float NaN, and a numeric field of the record is None exactly when the cell is
  absent (\<^verbatim>\<open>row.get\<close> gives None).
\<close>

theorem history_nan_kept:
  assumes pt: "price_table df" and ret: "normalize_history rt (Some df) = Inr recs"
    and reset: "reset_index rt df = Inr df'" and i: "i < length recs"
    and kc: "(k, col) \<in> set price_fields"
  shows "(series_get (iterrows df' ! i) (SStr col) = SFloat FNaN
            \<longrightarrow> dict_get (recs ! i) (SStr k) = Atom (SFloat FNaN))
         \<and> (dict_get (recs ! i) (SStr k) = Atom SNone
              \<longleftrightarrow> series_get (iterrows df' ! i) (SStr col) = SNone)"
proof -
  have ne: "\<not> df_empty df"
    using ret i by (auto simp: normalize_history_def split: if_splits)
  from normalize_history_nth [OF ret ne] reset i
  have hr: "history_record rt (iterrows df' ! i) = Inr (recs ! i)" by auto
  from history_record_field [OF hr kc] obtain v where
    ff: "float_field rt (iterrows df' ! i) col = Inr v"
    and dg: "dict_get (recs ! i) (SStr k) = Atom v"
    by blast
  from float_field_cases [OF ff] show ?thesis using dg by auto
qed

theorem history_nan_kept_witness:
  "price_table example_prices
   \<and> normalize_history example_runtime (Some example_prices) = Inr example_bars
   \<and> reset_index example_runtime example_prices = Inr example_prices_reset
   \<and> (0::nat) < length example_bars
   \<and> (''low'', ''Low'') \<in> set price_fields
   \<and> series_get (iterrows example_prices_reset ! 0) (SStr ''Low'') = SFloat FNaN
   \<and> dict_get (example_bars ! 0) (SStr ''low'') = Atom (SFloat FNaN)"
proof -
  have h1: "price_table example_prices" by (rule example_prices_table)
  have h2: "normalize_history example_runtime (Some example_prices) = Inr example_bars"
    by (rule example_prices_bars)
  have h3: "reset_index example_runtime example_prices = Inr example_prices_reset"
    by (rule example_prices_reset_index)
  have h4: "(0::nat) < length example_bars" by (simp add: example_bars_def)
  have h5: "(''low'', ''Low'') \<in> set price_fields" by (simp add: price_fields_def)
  have h6: "series_get (iterrows example_prices_reset ! 0) (SStr ''Low'') = SFloat FNaN"
    by (simp add: example_prices_reset_def iterrows_def series_get_def)
  from history_nan_kept [OF h1 h2 h3 h4 h5] h6
  have "dict_get (example_bars ! 0) (SStr ''low'') = Atom (SFloat FNaN)" by blast
  with h1 h2 h3 h4 h5 h6 show ?thesis by blast
qed

section \<open>Properties of the envelope and the dispatcher\<close>

lemma respond_failure:
  "respond rt False data (SStr m) out
     = Inr (out @ [failure_doc (if m = [] then ''unknown error'' else m)])"
  by (simp add: respond_def Let_def failure_doc_def)

lemma respond_success:
  "respond rt True data err out
     = (case json_dumps rt data of Inl e \<Rightarrow> Inl e | Inr j \<Rightarrow> Inr (out @ [success_doc j]))"
  by (simp add: respond_def Let_def success_doc_def split: sum.splits)

lemma envelope_failure: "envelope False (failure_doc m)"
  by (simp add: failure_doc_def)

lemma envelope_success: "envelope True (success_doc j)"
  by (simp add: success_doc_def)

lemma respond_envelope:
  assumes "respond rt ok data err out = Inr out'"
  shows "\<exists>doc. out' = out @ [doc] \<and> envelope ok doc"
proof (cases ok)
  case True
  with assms obtain j where "out' = out @ [success_doc j]"
    by (auto simp: respond_success split: sum.splits)
  with True show ?thesis by (simp add: envelope_success)
next
  case False
  with assms have "out' = out @ [JObj [(''ok'', JBool False),
      (''error'', dumps_scalar rt (if truthy err then err else SStr ''unknown error''))]]"
    by (auto simp: respond_def Let_def)
  with False show ?thesis by simp
qed

lemma respond_with_out:
  "respond_with rt r = (Inr out, cs) \<Longrightarrow>
     cs = snd r \<and> (\<exists>data j. fst r = Inr data \<and> json_dumps rt data = Inr j \<and> out = [success_doc j])"
  by (auto simp: respond_with_def respond_success split: sum.splits)

lemma respond_with_raises:
  "fst r = Inl e \<Longrightarrow> respond_with rt r = (Inl e, snd r)"
  by (simp add: respond_with_def)

lemma respond_with_unencodable:
  "fst r = Inr data \<Longrightarrow> json_dumps rt data = Inl e \<Longrightarrow> respond_with rt r = (Inl e, snd r)"
  by (simp add: respond_with_def respond_success)

lemma dispatch_out:
  assumes "dispatch rt pv d = (Inr out, cs)"
  shows "(\<exists>j. out = [success_doc j]) \<or> out = [failure_doc ''Unsupported action'']"
  using assms unfolding dispatch_def Let_def
  by (auto simp: respond_failure split: if_splits dest!: respond_with_out)

lemma main_try_out:
  assumes "main_try rt pv inp = (Inr out, cs)"
  shows "(\<exists>j. out = [success_doc j]) \<or> out = [failure_doc ''Unsupported action'']"
proof (cases "json_loads rt (if inp \<noteq> [] then inp else ''{}'')")
  case (Inl e)
  with assms show ?thesis by (simp add: main_try_def)
next
  case (Inr payload)
  show ?thesis
  proof (cases payload)
    case (PDict d)
    with Inr assms have "dispatch rt pv d = (Inr out, cs)" by (simp add: main_try_def)
    then show ?thesis by (rule dispatch_out)
  qed (use Inr assms in \<open>simp_all add: main_try_def\<close>)
qed

lemma main_run:
  "main rt pv inp =
     (case main_try rt pv inp of
        (Inr out, cs) \<Rightarrow> \<lparr>stdout = out, calls = cs, uncaught = None\<rparr>
      | (Inl e, cs) \<Rightarrow> \<lparr>stdout = [failure_doc (error_text e)], calls = cs, uncaught = None\<rparr>)"
  by (simp add: main_def respond_failure error_text_def split: prod.splits sum.splits)

lemma error_text_nonempty: "error_text e \<noteq> []"
  by (simp add: error_text_def)

lemma parse_error_raises:
  "json_loads rt (if inp \<noteq> [] then inp else ''{}'') = Inl e \<Longrightarrow> main_try rt pv inp = (Inl e, [])"
  by (simp add: main_try_def)

lemma non_object_raises:
  "json_loads rt (if inp \<noteq> [] then inp else ''{}'') = Inr v \<Longrightarrow> \<forall>d. v \<noteq> PDict d \<Longrightarrow>
   main_try rt pv inp = (Inl (no_attribute v ''get''), [])"
  by (cases v) (simp_all add: main_try_def)

lemma example_loads_search:
  "example_loads search_request
     = Inr (PDict [(SStr ''action'', Atom (SStr ''search'')), (SStr ''query'', Atom (SStr ''AAPL''))])"
  by (simp add: example_loads_def search_request_def dq_def)

lemma example_loads_quote:
  "example_loads quote_request = Inr (PDict [(SStr ''action'', Atom (SStr ''quote''))])"
  by (simp add: example_loads_def search_request_def statements_request_def quote_request_def dq_def)

lemma search_request_nonempty: "search_request \<noteq> []"
  by (simp add: search_request_def)

lemma quote_request_nonempty: "quote_request \<noteq> []"
  by (simp add: quote_request_def)

lemma search_unreachable:
  "main_try example_runtime failing_provider search_request
     = (Inl (Exc ProviderError ''Max retries exceeded with url: /v1/finance/search''),
        [RequestsGet (Atom (SStr ''AAPL''))])"
  by (simp add: main_try_def example_runtime_def example_loads_search search_request_nonempty
      dispatch_def Let_def dict_get_def handle_search_def failing_provider_def respond_with_def)

text \<open>
  C3. Whenever anything in the body of \<open>main\<close> raises (parsing the input, reading the
  payload, a handler or the provider, encoding the result), the run writes exactly one
  document, the failure envelope whose \<^verbatim>\<open>error\<close> is the exception's text (or
  \<^verbatim>\<open>unknown error\<close>), which is never empty. Every run writes exactly one document and
  leaves no exception uncaught.
\<close>

theorem main_exception_envelope:
  "(fst (main_try rt pv inp) = Inl e \<longrightarrow>
      stdout (main rt pv inp) = [failure_doc (error_text e)] \<and> error_text e \<noteq> [])
   \<and> length (stdout (main rt pv inp)) = 1
   \<and> uncaught (main rt pv inp) = None"
proof -
  obtain r cs where mt: "main_try rt pv inp = (r, cs)" by (cases "main_try rt pv inp")
  show ?thesis
  proof (cases r)
    case (Inl e')
    with mt show ?thesis by (simp add: main_run error_text_nonempty)
  next
    case (Inr out)
    with mt main_try_out [of rt pv inp out cs] show ?thesis by (auto simp: main_run)
  qed
qed

theorem main_exception_envelope_witness:
  "fst (main_try example_runtime failing_provider search_request)
     = Inl (Exc ProviderError ''Max retries exceeded with url: /v1/finance/search'')
   \<and> stdout (main example_runtime failing_provider search_request)
       = [failure_doc ''Max retries exceeded with url: /v1/finance/search'']"
proof -
  have h: "fst (main_try example_runtime failing_provider search_request)
             = Inl (Exc ProviderError ''Max retries exceeded with url: /v1/finance/search'')"
    by (simp add: search_unreachable)
  from main_exception_envelope [of example_runtime failing_provider search_request
      "Exc ProviderError ''Max retries exceeded with url: /v1/finance/search''"] h
  have "stdout (main example_runtime failing_provider search_request)
          = [failure_doc (error_text (Exc ProviderError ''Max retries exceeded with url: /v1/finance/search''))]"
    by blast
  then have "stdout (main example_runtime failing_provider search_request)
          = [failure_doc ''Max retries exceeded with url: /v1/finance/search'']"
    by (simp add: error_text_def)
  with h show ?thesis by blast
qed

text \<open>
  C4. When the input parses to an object whose \<^verbatim>\<open>action\<close> is missing or is none of the
  six action names, the run writes the one failure envelope with the error
  \<^verbatim>\<open>Unsupported action\<close> and makes no provider call.
\<close>

theorem unsupported_action:
  assumes parse: "json_loads rt (if inp \<noteq> [] then inp else ''{}'') = Inr (PDict d)"
    and other: "dict_get d (SStr ''action'') \<notin> set (map (\<lambda>a. Atom (SStr a)) actions)"
  shows "main rt pv inp
           = \<lparr>stdout = [failure_doc ''Unsupported action''], calls = [], uncaught = None\<rparr>"
proof -
  from other have "dispatch rt pv d = (Inr [failure_doc ''Unsupported action''], [])"
    by (simp add: dispatch_def Let_def actions_def respond_failure)
  with parse have "main_try rt pv inp = (Inr [failure_doc ''Unsupported action''], [])"
    by (simp add: main_try_def)
  then show ?thesis by (simp add: main_run)
qed

theorem unsupported_action_witness:
  "json_loads example_runtime (if quote_request \<noteq> [] then quote_request else ''{}'')
     = Inr (PDict [(SStr ''action'', Atom (SStr ''quote''))])
   \<and> dict_get [(SStr ''action'', Atom (SStr ''quote''))] (SStr ''action'')
       \<notin> set (map (\<lambda>a. Atom (SStr a)) actions)
   \<and> main example_runtime example_provider quote_request
       = \<lparr>stdout = [failure_doc ''Unsupported action''], calls = [], uncaught = None\<rparr>"
proof -
  have h1: "json_loads example_runtime (if quote_request \<noteq> [] then quote_request else ''{}'')
     = Inr (PDict [(SStr ''action'', Atom (SStr ''quote''))])"
    by (simp add: example_runtime_def example_loads_quote quote_request_nonempty)
  have h2: "dict_get [(SStr ''action'', Atom (SStr ''quote''))] (SStr ''action'')
       \<notin> set (map (\<lambda>a. Atom (SStr a)) actions)"
    by (simp add: dict_get_def actions_def)
  from unsupported_action [OF h1 h2]
  have "main example_runtime example_provider quote_request
       = \<lparr>stdout = [failure_doc ''Unsupported action''], calls = [], uncaught = None\<rparr>" .
  with h1 h2 show ?thesis by blast
qed

text \<open>
  C5 (as the code has it). Empty input is read as the empty object and yields the
  \<^verbatim>\<open>Unsupported action\<close> failure envelope. Input that does not parse yields a failure
  envelope too, carrying the parser's message, and input that parses to something other
  than an object one carrying the AttributeError's message; in every case one document is
  written, no provider call is made and nothing is left uncaught.
\<close>

theorem malformed_or_empty_input:
  "(json_loads rt ''{}'' = Inr (PDict []) \<longrightarrow>
      main rt pv [] = \<lparr>stdout = [failure_doc ''Unsupported action''], calls = [], uncaught = None\<rparr>)
   \<and> (inp \<noteq> [] \<and> json_loads rt inp = Inl e \<longrightarrow>
      main rt pv inp = \<lparr>stdout = [failure_doc (error_text e)], calls = [], uncaught = None\<rparr>)
   \<and> (inp \<noteq> [] \<and> json_loads rt inp = Inr v \<and> (\<forall>d. v \<noteq> PDict d) \<longrightarrow>
      main rt pv inp = \<lparr>stdout = [failure_doc (error_text (no_attribute v ''get''))],
                        calls = [], uncaught = None\<rparr>)"
proof (intro conjI impI)
  assume "json_loads rt ''{}'' = Inr (PDict [])"
  then have "main_try rt pv [] = (Inr [failure_doc ''Unsupported action''], [])"
    by (simp add: main_try_def dispatch_def Let_def dict_get_def respond_failure)
  then show "main rt pv [] = \<lparr>stdout = [failure_doc ''Unsupported action''], calls = [], uncaught = None\<rparr>"
    by (simp add: main_run)
next
  assume "inp \<noteq> [] \<and> json_loads rt inp = Inl e"
  then have "main_try rt pv inp = (Inl e, [])" by (simp add: main_try_def)
  then show "main rt pv inp = \<lparr>stdout = [failure_doc (error_text e)], calls = [], uncaught = None\<rparr>"
    by (simp add: main_run)
next
  assume a: "inp \<noteq> [] \<and> json_loads rt inp = Inr v \<and> (\<forall>d. v \<noteq> PDict d)"
  then have "main_try rt pv inp = (Inl (no_attribute v ''get''), [])"
    using non_object_raises [of rt inp v pv] by simp
  then show "main rt pv inp = \<lparr>stdout = [failure_doc (error_text (no_attribute v ''get''))],
                        calls = [], uncaught = None\<rparr>"
    by (simp add: main_run)
qed

theorem malformed_or_empty_input_witness:
  "json_loads example_runtime ''{}'' = Inr (PDict [])
   \<and> main example_runtime failing_provider []
       = \<lparr>stdout = [failure_doc ''Unsupported action''], calls = [], uncaught = None\<rparr>"
proof -
  have h: "json_loads example_runtime ''{}'' = Inr (PDict [])"
    by (simp add: example_runtime_def example_loads_def)
  from malformed_or_empty_input [of example_runtime failing_provider "''{''"
      "Exc JSONDecodeError
         ''Expecting property name enclosed in double quotes: line 1 column 2 (char 1)''"
      "Atom SNone"] h
  have "main example_runtime failing_provider []
       = \<lparr>stdout = [failure_doc ''Unsupported action''], calls = [], uncaught = None\<rparr>"
    by blast
  with h show ?thesis by blast
qed

text \<open>
  C5 as stated fails: the truncated text \<^verbatim>\<open>{\<close> does not reach the unsupported-action
  branch; the envelope carries the parser's message.
\<close>

theorem malformed_input_parser_message:
  "main example_runtime failing_provider ''{''
     = \<lparr>stdout = [failure_doc
          ''Expecting property name enclosed in double quotes: line 1 column 2 (char 1)''],
        calls = [], uncaught = None\<rparr>"
  by (simp add: main_run main_try_def example_runtime_def example_loads_def error_text_def)

text \<open>
  C9. Every document \<open>respond\<close> writes is an envelope whose \<^verbatim>\<open>ok\<close> flag is the one
  passed, with a \<^verbatim>\<open>data\<close> field exactly when the flag is true and an \<^verbatim>\<open>error\<close> field
  exactly when it is false; and the one document a run writes is such an envelope.
\<close>

theorem envelope_data_xor_error:
  "(respond rt ok data err out = Inr out' \<longrightarrow> (\<exists>doc. out' = out @ [doc] \<and> envelope ok doc))
   \<and> (\<exists>b doc. stdout (main rt pv inp) = [doc] \<and> envelope b doc)"
proof -
  have "\<exists>b doc. stdout (main rt pv inp) = [doc] \<and> envelope b doc"
  proof -
    obtain r cs where mt: "main_try rt pv inp = (r, cs)" by (cases "main_try rt pv inp")
    show ?thesis
    proof (cases r)
      case (Inl e)
      with mt have "stdout (main rt pv inp) = [failure_doc (error_text e)]"
        by (simp add: main_run)
      with envelope_failure show ?thesis by blast
    next
      case (Inr out)
      with mt main_try_out [of rt pv inp out cs]
      consider j where "out = [success_doc j]" | "out = [failure_doc ''Unsupported action'']"
        by blast
      then show ?thesis
      proof cases
        case 1
        with mt Inr have "stdout (main rt pv inp) = [success_doc j]" by (simp add: main_run)
        with envelope_success show ?thesis by blast
      next
        case 2
        with mt Inr have "stdout (main rt pv inp) = [failure_doc ''Unsupported action'']"
          by (simp add: main_run)
        with envelope_failure show ?thesis by blast
      qed
    qed
  qed
  with respond_envelope show ?thesis by blast
qed

theorem envelope_data_xor_error_witness:
  "respond example_runtime True (Atom (SInt 1)) SNone [] = Inr [success_doc (JInt 1)]
   \<and> (\<exists>doc. [success_doc (JInt 1)] = [] @ [doc] \<and> envelope True doc)"
proof -
  have h: "respond example_runtime True (Atom (SInt 1)) SNone [] = Inr [success_doc (JInt 1)]"
    by (simp add: respond_success)
  from envelope_data_xor_error [of example_runtime True "Atom (SInt 1)" SNone "[]"
      "[success_doc (JInt 1)]" example_provider "[]"] h
  have "\<exists>doc. [success_doc (JInt 1)] = [] @ [doc] \<and> envelope True doc" by blast
  with h show ?thesis by blast
qed

section \<open>Properties of the statements action\<close>

lemma add_items_flat:
  assumes "add_items rt items rec = Inr rec'" and "flat_record rec"
  shows "flat_record rec'"
  unfolding flat_record_def
proof (clarify)
  fix k v
  assume "(k, v) \<in> set rec'"
  from add_items_fields [OF assms(1) this] assms(2)
  show "(\<exists>s. k = SStr s) \<and> (\<exists>a. v = Atom a)"
    by (auto simp: flat_record_def)
qed

lemma df_to_records_flat:
  assumes "df_to_records rt (Some df) = Inr recs" and "\<not> df_empty df"
  shows "\<forall>rec \<in> set recs. flat_record rec"
proof
  fix rec
  assume "rec \<in> set recs"
  then obtain j where j: "j < length recs" and rec: "rec = recs ! j"
    by (auto simp: in_set_conv_nth)
  from df_to_records_nth(1) [OF assms] j have "j < length (df_columns df)" by simp
  from df_to_records_nth(2) [OF assms this]
  have "add_items rt (column_cells df j)
          [(SStr ''report_period'', Atom (rekey_column rt (df_columns df ! j)))] = Inr rec"
    using rec by simp
  moreover have "flat_record [(SStr ''report_period'', Atom (rekey_column rt (df_columns df ! j)))]"
    by (simp add: flat_record_def)
  ultimately show "flat_record rec" by (rule add_items_flat)
qed

lemma dumps_items_flat:
  "flat_record rec \<Longrightarrow> \<exists>ms. dumps_items rt rec = Inr ms"
proof (induction rec)
  case Nil
  then show ?case by simp
next
  case (Cons p rec)
  from Cons.prems obtain s a where p: "p = (SStr s, Atom a)"
    by (cases p) (auto simp: flat_record_def)
  from Cons.prems have "flat_record rec" by (simp add: flat_record_def)
  from Cons.IH [OF this] obtain ms where "dumps_items rt rec = Inr ms" by blast
  with p show ?case by simp
qed

lemma dumps_list_records:
  "\<forall>rec \<in> set recs. flat_record rec \<Longrightarrow>
   \<exists>js. dumps_list rt (map PDict recs) = Inr js \<and> length js = length recs"
proof (induction recs)
  case Nil
  then show ?case by simp
next
  case (Cons rec recs)
  from Cons.prems dumps_items_flat obtain ms where ms: "dumps_items rt rec = Inr ms"
    by fastforce
  from Cons obtain js where "dumps_list rt (map PDict recs) = Inr js" "length js = length recs"
    by auto
  with ms show ?case by simp
qed

lemma coerce_cell_total:
  "(\<forall>i. c = SInt i \<longrightarrow> (\<exists>f. int_to_float i = Inr f)) \<Longrightarrow> \<exists>w. coerce_cell rt c = Inr w"
  by (cases c) (auto simp: coerce_cell_def)

lemma add_items_total:
  "\<forall>(key, val) \<in> set items. \<exists>w. coerce_cell rt val = Inr w \<Longrightarrow>
   \<exists>rec'. add_items rt items rec = Inr rec'"
proof (induction items arbitrary: rec)
  case Nil
  then show ?case by simp
next
  case (Cons item items)
  obtain key val where item: "item = (key, val)" by (cases item)
  from Cons.prems item obtain w where w: "coerce_cell rt val = Inr w" by auto
  from Cons.prems have rest: "\<forall>(key, val) \<in> set items. \<exists>w. coerce_cell rt val = Inr w" by simp
  from Cons.IH [OF rest] show ?case using item w by simp
qed

lemma records_loop_total:
  "\<forall>(idx, items) \<in> set rows. \<forall>(key, val) \<in> set items. \<exists>w. coerce_cell rt val = Inr w \<Longrightarrow>
   \<exists>recs. records_loop rt rows = Inr recs"
proof (induction rows)
  case Nil
  then show ?case by simp
next
  case (Cons row rows)
  obtain idx items where row: "row = (idx, items)" by (cases row)
  from Cons.prems row have "\<forall>(key, val) \<in> set items. \<exists>w. coerce_cell rt val = Inr w" by simp
  from add_items_total [OF this] obtain rec where
    "add_items rt items [(SStr ''report_period'', Atom (SStr (py_str rt idx)))] = Inr rec"
    by blast
  moreover from Cons obtain recs where "records_loop rt rows = Inr recs" by auto
  ultimately show ?case using row by simp
qed

lemma column_cells_in_rows:
  assumes "df_wf df" and "j < length (df_columns df)"
    and "(key, val) \<in> set (column_cells df j)"
  shows "\<exists>r \<in> set (df_rows df). val \<in> set r"
proof -
  from assms(3) have "val \<in> set (map (\<lambda>r. r ! j) (df_rows df))"
    unfolding column_cells_def by (rule set_zip_rightD)
  then obtain r where r: "r \<in> set (df_rows df)" and val: "val = r ! j" by auto
  from assms(1) r have "length r = length (df_columns df)"
    by (simp add: df_wf_def list_all_iff)
  with assms(2) val have "val \<in> set r" by simp
  with r show ?thesis by blast
qed

lemma df_to_records_total:
  assumes wf: "df_wf df" and range: "ints_in_float_range df"
  shows "\<exists>recs. df_to_records rt (Some df) = Inr recs"
proof (cases "df_empty df")
  case True
  then show ?thesis by (simp add: df_to_records_def)
next
  case False
  let ?rows = "transposed_rows (df\<lparr>df_columns := map (rekey_column rt) (df_columns df)\<rparr>)"
  have "\<forall>(idx, items) \<in> set ?rows. \<forall>(key, val) \<in> set items. \<exists>w. coerce_cell rt val = Inr w"
  proof (clarify)
    fix idx items key val
    assume "(idx, items) \<in> set ?rows" and kv: "(key, val) \<in> set items"
    then obtain j where j: "j < length (df_columns df)" and items: "items = column_cells df j"
      by (auto simp: transposed_rows_def)
    from column_cells_in_rows [OF wf j] kv items obtain r where
      "r \<in> set (df_rows df)" "val \<in> set r" by blast
    with range have "\<forall>i. val = SInt i \<longrightarrow> (\<exists>f. int_to_float i = Inr f)"
      by (auto simp: ints_in_float_range_def)
    then show "\<exists>w. coerce_cell rt val = Inr w" by (rule coerce_cell_total)
  qed
  from records_loop_total [OF this] False show ?thesis
    by (simp add: df_to_records_def)
qed

lemma empty_table_records: "empty_table dfo \<Longrightarrow> df_to_records rt dfo = Inr []"
  by (cases dfo) (simp_all add: empty_table_def df_to_records_def)

lemma example_loads_statements:
  "example_loads statements_request
     = Inr (PDict [(SStr ''action'', Atom (SStr ''statements'')),
                   (SStr ''symbol'', Atom (SStr ''AAPL'')),
                   (SStr ''statement_type'', Atom (SStr ''income''))])"
  by (simp add: example_loads_def search_request_def statements_request_def dq_def)

lemma statements_request_nonempty: "statements_request \<noteq> []"
  by (simp add: statements_request_def)

text \<open>
  C8. For a \<^verbatim>\<open>statements\<close> request whose selected annual table is empty (absent, or
  without rows or columns) and whose selected quarterly table is not (and is well formed,
  with no integer beyond the float range), the run writes the success envelope whose
  \<^verbatim>\<open>data.annual\<close> is the empty array and whose \<^verbatim>\<open>data.quarterly\<close> has one record per
  column, that is per reporting period, of the quarterly table.
\<close>

theorem statements_empty_annual:
  assumes parse: "json_loads rt (if inp \<noteq> [] then inp else ''{}'') = Inr (PDict d)"
    and action: "dict_get d (SStr ''action'') = Atom (SStr ''statements'')"
    and tk: "yf_Ticker pv (dict_get d (SStr ''symbol'')) = Inr tk"
    and tables: "select_tables tk (dict_get d (SStr ''statement_type''))
                   = (Inr annual, Inr (Some quarterly))"
    and empty: "empty_table annual"
    and nonempty: "\<not> df_empty quarterly"
    and wf: "df_wf quarterly"
    and range: "ints_in_float_range quarterly"
  shows "\<exists>js. stdout (main rt pv inp)
                 = [success_doc (JObj [(''annual'', JArr []), (''quarterly'', JArr js)])]
              \<and> length js = length (df_columns quarterly)"
proof -
  from df_to_records_total [OF wf range] obtain recs where
    recs: "df_to_records rt (Some quarterly) = Inr recs" by blast
  from df_to_records_nth(1) [OF recs nonempty]
  have len: "length recs = length (df_columns quarterly)" .
  from dumps_list_records [OF df_to_records_flat [OF recs nonempty]] obtain js where
    js: "dumps_list rt (map PDict recs) = Inr js" and ljs: "length js = length recs"
    by blast
  let ?data = "PDict [(SStr ''annual'', records_val []), (SStr ''quarterly'', records_val recs)]"
  have hs: "handle_statements rt pv (dict_get d (SStr ''symbol''))
              (dict_get d (SStr ''statement_type''))
            = (Inr ?data, [TickerNew (dict_get d (SStr ''symbol''))])"
    using tk tables recs empty_table_records [OF empty]
    by (simp add: handle_statements_def)
  have dumps: "json_dumps rt ?data = Inr (JObj [(''annual'', JArr []), (''quarterly'', JArr js)])"
    using js by (simp add: records_val_def)
  have "dispatch rt pv d
          = (Inr [success_doc (JObj [(''annual'', JArr []), (''quarterly'', JArr js)])],
             [TickerNew (dict_get d (SStr ''symbol''))])"
    using action hs dumps
    by (simp add: dispatch_def Let_def respond_with_def respond_success)
  with parse have "main_try rt pv inp
          = (Inr [success_doc (JObj [(''annual'', JArr []), (''quarterly'', JArr js)])],
             [TickerNew (dict_get d (SStr ''symbol''))])"
    by (simp add: main_try_def)
  then have "stdout (main rt pv inp)
               = [success_doc (JObj [(''annual'', JArr []), (''quarterly'', JArr js)])]"
    by (simp add: main_run)
  with ljs len show ?thesis by (intro exI [of _ js]) simp
qed

theorem statements_empty_annual_witness:
  "empty_table (Some no_rows) \<and> \<not> df_empty example_statement
   \<and> df_wf example_statement \<and> ints_in_float_range example_statement
   \<and> (\<exists>js. stdout (main example_runtime example_provider statements_request)
                 = [success_doc (JObj [(''annual'', JArr []), (''quarterly'', JArr js)])]
          \<and> length js = length (df_columns example_statement))"
proof -
  let ?d = "[(SStr ''action'', Atom (SStr ''statements'')),
             (SStr ''symbol'', Atom (SStr ''AAPL'')),
             (SStr ''statement_type'', Atom (SStr ''income''))]"
  have h1: "json_loads example_runtime
              (if statements_request \<noteq> [] then statements_request else ''{}'') = Inr (PDict ?d)"
    by (simp add: example_runtime_def example_loads_statements statements_request_nonempty)
  have h2: "dict_get ?d (SStr ''action'') = Atom (SStr ''statements'')"
    by (simp add: dict_get_def)
  have h3: "yf_Ticker example_provider (dict_get ?d (SStr ''symbol'')) = Inr example_ticker"
    by (simp add: example_provider_def)
  have h4: "select_tables example_ticker (dict_get ?d (SStr ''statement_type''))
              = (Inr (Some no_rows), Inr (Some example_statement))"
    by (simp add: select_tables_def dict_get_def example_ticker_def)
  have h5: "empty_table (Some no_rows)"
    by (simp add: empty_table_def df_empty_def no_rows_def)
  have h6: "\<not> df_empty example_statement"
    by (simp add: df_empty_def example_statement_def)
  have h7: "df_wf example_statement"
    by (simp add: df_wf_def example_statement_def)
  have h8: "ints_in_float_range example_statement"
    by (simp add: ints_in_float_range_def example_statement_def int_to_float_exact)
  from statements_empty_annual [OF h1 h2 h3 h4 h5 h6 h7 h8] h5 h6 h7 h8
  show ?thesis by blast
qed

end
